theory Spec2Isabelle
  imports Complex_Main
begin

section \<open>The C++ type double\<close>

text \<open>
  The library scales a \<^verbatim>\<open>timeval\<close> by converting it to a \<^verbatim>\<open>double\<close>,
  multiplying or dividing, and converting back, so its results depend on the rounding of
  IEEE 754 binary64 arithmetic. A \<^verbatim>\<open>double\<close> is modelled as NaN, an infinity, or
  the real number it denotes; \<open>Finite x\<close> is a \<^verbatim>\<open>double\<close> when \<open>x\<close> is
  representable, that is when \<open>round_double x = Finite x\<close>. Every arithmetic operation
  computes the exact result and rounds it to the nearest representable number, ties to the
  even mantissa, as the hardware does in its default rounding mode. Negative zero is
  identified with zero: it differs from zero only in the sign of an infinity obtained by
  dividing by it, and no conversion or comparison of the library distinguishes the two
  infinities after such a division.
\<close>

datatype double = Finite real | PInf | NInf | NaN

definition dinf :: "bool \<Rightarrow> double" where
  "dinf positive = (if positive then PInf else NInf)"

text \<open>
  The binary exponent of a positive real: \<open>expo x = e\<close> when \<open>2^e \<le> x < 2^(e+1)\<close>,
  found by halving or doubling \<open>x\<close> until it lies between 1 and 2.
\<close>

function expo :: "real \<Rightarrow> int" where
  "expo x =
     (if x \<le> 0 then 0
      else if 2 \<le> x then expo (x / 2) + 1
      else if x < 1 then expo (x * 2) - 1
      else 0)"
  by pat_completeness auto
termination
proof (relation "measure (\<lambda>x. nat \<bar>\<lfloor>log 2 x\<rfloor>\<bar>)")
  show "wf (measure (\<lambda>x. nat \<bar>\<lfloor>log 2 x\<rfloor>\<bar>))" by simp
next
  fix x :: real
  assume "\<not> x \<le> 0" and x: "2 \<le> x"
  then have "log 2 (x / 2) = log 2 x - 1" by (simp add: log_divide)
  moreover have "1 \<le> log 2 x" using x by (simp add: le_log_iff)
  then have "1 \<le> \<lfloor>log 2 x\<rfloor>" by linarith
  ultimately show "(x / 2, x) \<in> measure (\<lambda>x. nat \<bar>\<lfloor>log 2 x\<rfloor>\<bar>)" by simp
next
  fix x :: real
  assume p: "\<not> x \<le> 0" and "\<not> 2 \<le> x" and x: "x < 1"
  then have "log 2 (x * 2) = log 2 x + 1" by (simp add: log_mult)
  moreover have "log 2 x < 0" using p x by simp
  then have "\<lfloor>log 2 x\<rfloor> \<le> - 1" by linarith
  ultimately show "(x * 2, x) \<in> measure (\<lambda>x. nat \<bar>\<lfloor>log 2 x\<rfloor>\<bar>)" by simp
qed

declare expo.simps [simp del]

definition pow2 :: "int \<Rightarrow> real" where
  "pow2 n = (if 0 \<le> n then 2 ^ nat n else 1 / 2 ^ nat (- n))"

text \<open>Rounding to the nearest integer, a tie to the even one.\<close>

definition round_even :: "real \<Rightarrow> int" where
  "round_even x =
     (let f = \<lfloor>x\<rfloor>; d = x - of_int f
      in if d < 1 / 2 then f else if 1 / 2 < d then f + 1 else if even f then f else f + 1)"

text \<open>
  Rounding a real to binary64. With \<open>e\<close> the exponent of \<open>x\<close>, not below the exponent
  \<open>-1022\<close> of the subnormal numbers, the representable numbers around \<open>x\<close> are the
  multiples of \<open>2^(e-52)\<close>; \<open>x\<close> is rounded to the nearest one. The result overflows to
  an infinity when its magnitude reaches \<open>2^1024\<close>: the exponent of \<open>x\<close> is 1024 or
  more, or it is 1023 and the mantissa was rounded up to \<open>2^53\<close>.
\<close>

definition round_double :: "real \<Rightarrow> double" where
  "round_double x =
     (let e = max (expo \<bar>x\<bar>) (- 1022);
          ulp = pow2 (e - 52);
          m = round_even (x / ulp)
      in if 1024 \<le> e \<or> (e = 1023 \<and> \<bar>m\<bar> = 2 ^ 53) then dinf (0 < x)
         else Finite (of_int m * ulp))"

fun isnan :: "double \<Rightarrow> bool" where
  "isnan NaN = True"
| "isnan _ = False"

fun isinf :: "double \<Rightarrow> bool" where
  "isinf PInf = True"
| "isinf NInf = True"
| "isinf _ = False"

text \<open>The comparison \<^verbatim>\<open>a <= b\<close>: false as soon as one side is NaN.\<close>

fun dle :: "double \<Rightarrow> double \<Rightarrow> bool" where
  "dle NaN _ = False"
| "dle _ NaN = False"
| "dle NInf _ = True"
| "dle _ PInf = True"
| "dle (Finite x) (Finite y) = (x \<le> y)"
| "dle PInf _ = False"
| "dle _ NInf = False"

fun dadd :: "double \<Rightarrow> double \<Rightarrow> double" where
  "dadd NaN _ = NaN"
| "dadd _ NaN = NaN"
| "dadd (Finite x) (Finite y) = round_double (x + y)"
| "dadd PInf NInf = NaN"
| "dadd NInf PInf = NaN"
| "dadd PInf _ = PInf"
| "dadd NInf _ = NInf"
| "dadd _ PInf = PInf"
| "dadd _ NInf = NInf"

fun dmul :: "double \<Rightarrow> double \<Rightarrow> double" where
  "dmul NaN _ = NaN"
| "dmul _ NaN = NaN"
| "dmul (Finite x) (Finite y) = round_double (x * y)"
| "dmul PInf (Finite y) = (if y = 0 then NaN else dinf (0 < y))"
| "dmul NInf (Finite y) = (if y = 0 then NaN else dinf (y < 0))"
| "dmul (Finite x) PInf = (if x = 0 then NaN else dinf (0 < x))"
| "dmul (Finite x) NInf = (if x = 0 then NaN else dinf (x < 0))"
| "dmul PInf PInf = PInf"
| "dmul NInf NInf = PInf"
| "dmul PInf NInf = NInf"
| "dmul NInf PInf = NInf"

fun ddiv :: "double \<Rightarrow> double \<Rightarrow> double" where
  "ddiv NaN _ = NaN"
| "ddiv _ NaN = NaN"
| "ddiv (Finite x) (Finite y) =
     (if y = 0 then (if x = 0 then NaN else dinf (0 < x)) else round_double (x / y))"
| "ddiv (Finite x) _ = Finite 0"
| "ddiv PInf (Finite y) = dinf (0 \<le> y)"
| "ddiv NInf (Finite y) = dinf (y < 0)"
| "ddiv _ _ = NaN"

text \<open>Truncation toward zero, the rounding of a C++ conversion to an integer type.\<close>

definition trunc :: "real \<Rightarrow> int" where
  "trunc x = (if 0 \<le> x then \<lfloor>x\<rfloor> else - \<lfloor>- x\<rfloor>)"

text \<open>
  \<^verbatim>\<open>fmod(x, y)\<close>: the remainder \<open>x - n * y\<close> with \<open>n\<close> the quotient truncated
  toward zero; NaN when \<open>x\<close> is infinite or \<open>y\<close> is zero. The remainder of two
  representable numbers is representable, so \<^verbatim>\<open>fmod\<close> does not round.
\<close>

fun fmod :: "double \<Rightarrow> double \<Rightarrow> double" where
  "fmod NaN _ = NaN"
| "fmod _ NaN = NaN"
| "fmod PInf _ = NaN"
| "fmod NInf _ = NaN"
| "fmod (Finite x) (Finite y) =
     (if y = 0 then NaN else Finite (x - of_int (trunc (x / y)) * y))"
| "fmod (Finite x) _ = Finite x"

text \<open>
  \<^verbatim>\<open>static_cast<time_t>\<close> and \<^verbatim>\<open>static_cast<suseconds_t>\<close> of a
  \<^verbatim>\<open>double\<close>. On Linux for x86-64 both target types are \<^verbatim>\<open>long\<close>, a signed
  64-bit integer; their values are modelled as the integers from \<open>-2^63\<close> up to
  \<open>2^63 - 1\<close>. A value whose truncation lies in this range is converted to it. C++ leaves
  every other conversion undefined (NaN, the infinities, a value out of range); the model
  returns what the conversion instruction of x86-64 returns for all of them, the least
  64-bit integer.
\<close>

definition INT64_MIN :: int where
  "INT64_MIN = - (2 ^ 63)"

fun double_to_integer :: "double \<Rightarrow> int" where
  "double_to_integer (Finite x) =
     (if INT64_MIN \<le> trunc x \<and> trunc x < 2 ^ 63 then trunc x else INT64_MIN)"
| "double_to_integer _ = INT64_MIN"

text \<open>\<^verbatim>\<open>static_cast<double>\<close> of an integer rounds as the arithmetic does.\<close>

definition integer_to_double :: "int \<Rightarrow> double" where
  "integer_to_double i = round_double (of_int i)"

section \<open>Duration arithmetic\<close>

record timeval =
  tv_sec :: int
  tv_usec :: int

record itimerval =
  it_interval :: timeval
  it_value :: timeval

definition STOP_TIMER :: itimerval where
  "STOP_TIMER = \<lparr>it_interval = \<lparr>tv_sec = 0, tv_usec = 0\<rparr>,
                 it_value = \<lparr>tv_sec = 0, tv_usec = 0\<rparr>\<rparr>"

definition USEC_PER_SEC :: double where
  "USEC_PER_SEC = integer_to_double 1000000"

definition timeval_to_double :: "timeval \<Rightarrow> double" where
  "timeval_to_double time =
     dadd (integer_to_double (tv_sec time))
          (ddiv (integer_to_double (tv_usec time)) USEC_PER_SEC)"

definition double_to_timeval :: "double \<Rightarrow> timeval" where
  "double_to_timeval time =
     \<lparr>tv_sec = double_to_integer time,
      tv_usec = double_to_integer (dmul (fmod time (Finite 1)) USEC_PER_SEC)\<rparr>"

text \<open>\<^verbatim>\<open>operator*=\<close> and \<^verbatim>\<open>operator*\<close> on a \<^verbatim>\<open>timeval\<close>.\<close>

definition timeval_times :: "timeval \<Rightarrow> double \<Rightarrow> timeval" where
  "timeval_times left right = double_to_timeval (dmul (timeval_to_double left) right)"

text \<open>\<^verbatim>\<open>operator/=\<close> and \<^verbatim>\<open>operator/\<close> on a \<^verbatim>\<open>timeval\<close>.\<close>

definition timeval_divide :: "timeval \<Rightarrow> double \<Rightarrow> timeval" where
  "timeval_divide left right = double_to_timeval (ddiv (timeval_to_double left) right)"

section \<open>The interval timers of the operating system\<close>

text \<open>
  \<^verbatim>\<open>setitimer\<close> and \<^verbatim>\<open>getitimer\<close> are system calls, outside the library.
  The model of the operating system holds the current setting of each of the three timers,
  \<^verbatim>\<open>errno\<close>, and a script \<open>faults\<close> that decides the outcome of the coming calls:
  each call consumes the head of the script, \<open>Some e\<close> makes it fail with error code
  \<open>e\<close> and return \<open>-1\<close>, \<open>None\<close> or an empty script makes it succeed and return
  \<open>0\<close>; \<open>next_fault\<close> is the outcome of the next call. Which arguments the kernel
  rejects (a \<^verbatim>\<open>timeval\<close> with a negative field, for instance) is not decided here:
  the verdict of the kernel is an input, given by the script. The countdown itself is not
  modelled: every statement below holds for an arbitrary setting found in the kernel when
  the operation is entered.

  The second component of the result is what the call stores through its output pointer: the
  setting before the call on success, all zeros on failure. Every caller in the library passes
  either a zero-initialised buffer (\<^verbatim>\<open>itimerval val {}\<close>) or \<^verbatim>\<open>nullptr\<close>,
  so this is the content of the buffer after the call.
\<close>

datatype itimer_which = ITIMER_REAL | ITIMER_VIRTUAL | ITIMER_PROF

record kernel =
  itimers :: "itimer_which \<Rightarrow> itimerval"
  faults :: "int option list"
  errno :: int

definition next_fault :: "kernel \<Rightarrow> int option" where
  "next_fault k = (case faults k of [] \<Rightarrow> None | f # _ \<Rightarrow> f)"

definition setitimer :: "itimer_which \<Rightarrow> itimerval \<Rightarrow> kernel \<Rightarrow> int \<times> itimerval \<times> kernel" where
  "setitimer which new_value k =
     (case next_fault k of
        Some e \<Rightarrow> (- 1, STOP_TIMER, k\<lparr>faults := tl (faults k), errno := e\<rparr>)
      | None \<Rightarrow>
          (0, itimers k which,
           k\<lparr>itimers := (itimers k)(which := new_value), faults := tl (faults k)\<rparr>))"

definition getitimer :: "itimer_which \<Rightarrow> kernel \<Rightarrow> int \<times> itimerval \<times> kernel" where
  "getitimer which k =
     (case next_fault k of
        Some e \<Rightarrow> (- 1, STOP_TIMER, k\<lparr>faults := tl (faults k), errno := e\<rparr>)
      | None \<Rightarrow> (0, itimers k which, k\<lparr>faults := tl (faults k)\<rparr>))"

section \<open>Timer core: class ITimer\<close>

text \<open>
  The exceptions thrown by the library, by C++ class and message;
  \<^verbatim>\<open>std::system_error\<close> also carries the value of \<^verbatim>\<open>errno\<close>.
\<close>

datatype error =
    logic_error string
  | runtime_error string
  | invalid_argument string
  | system_error int string

record ITimer =
  timer_value :: timeval
  timer_interval :: timeval
  type :: itimer_which
  speed_factor :: double
  running :: bool

text \<open>
  The four protected constructors, selected by the argument list. The default argument
  \<^verbatim>\<open>interval = {1, 0}\<close> of the first one is \<open>Interval \<lparr>tv_sec = 1, tv_usec = 0\<rparr>\<close>.
\<close>

datatype ctor_args =
    Interval timeval
  | Interval_Value timeval timeval
  | Seconds double
  | Seconds_Value double double

fun ITimer_ctor :: "itimer_which \<Rightarrow> ctor_args \<Rightarrow> ITimer" where
  "ITimer_ctor ty (Interval interval) =
     \<lparr>timer_value = interval, timer_interval = interval, type = ty,
      speed_factor = Finite 1, running = False\<rparr>"
| "ITimer_ctor ty (Seconds interval) =
     \<lparr>timer_value = double_to_timeval interval, timer_interval = double_to_timeval interval,
      type = ty, speed_factor = Finite 1, running = False\<rparr>"
| "ITimer_ctor ty (Interval_Value interval val) =
     \<lparr>timer_value = val, timer_interval = interval, type = ty,
      speed_factor = Finite 1, running = False\<rparr>"
| "ITimer_ctor ty (Seconds_Value interval val) =
     \<lparr>timer_value = double_to_timeval val, timer_interval = double_to_timeval interval,
      type = ty, speed_factor = Finite 1, running = False\<rparr>"

text \<open>
  A member function takes the object and the kernel and returns the exception or the result,
  together with the object and the kernel as the call leaves them.
\<close>

definition adjust_speed :: "ITimer \<Rightarrow> double \<Rightarrow> kernel \<Rightarrow> (error + unit) \<times> ITimer \<times> kernel" where
  "adjust_speed t new_factor k =
     (if \<not> running t then (Inl (runtime_error ''timer not running''), t, k)
      else
        case setitimer (type t) STOP_TIMER k of (tmp, val, k1) \<Rightarrow>
          if tmp \<noteq> 0 then (Inl (system_error (errno k1) ''call of setitimer failed''), t, k1)
          else
            let val = val\<lparr>it_interval := timeval_divide (timer_interval t) new_factor\<rparr>;
                val = val\<lparr>it_value :=
                        timeval_times (it_value val) (ddiv (speed_factor t) new_factor)\<rparr>
            in case setitimer (type t) val k1 of (tmp, _, k2) \<Rightarrow>
              if tmp \<noteq> 0
              then (Inl (system_error (errno k2) ''call of setitimer failed''), t, k2)
              else (Inr (), t\<lparr>speed_factor := new_factor\<rparr>, k2))"

definition start :: "ITimer \<Rightarrow> kernel \<Rightarrow> (error + unit) \<times> ITimer \<times> kernel" where
  "start t k =
     (if running t then (Inl (logic_error ''timer already started''), t, k)
      else
        let timer_val = \<lparr>it_interval = timeval_divide (timer_interval t) (speed_factor t),
                         it_value = timeval_divide (timer_value t) (speed_factor t)\<rparr>
        in if tv_sec (it_interval timer_val) < 0
           then (Inl (runtime_error ''timer interval is negative''), t, k)
           else if tv_sec (it_value timer_val) < 0
           then (Inl (runtime_error ''timer value is negative''), t, k)
           else if tv_sec (it_interval timer_val) = 0 \<and> tv_usec (it_interval timer_val) = 0
           then (Inl (runtime_error ''invalid timer values due to to a to small speed factor''),
                 t, k)
           else
             case setitimer (type t) timer_val k of (tmp, _, k1) \<Rightarrow>
               if tmp < 0
               then (Inl (system_error (errno k1) ''call of setitimer failed''), t, k1)
               else (Inr (), t\<lparr>running := True\<rparr>, k1))"

definition stop :: "ITimer \<Rightarrow> kernel \<Rightarrow> (error + unit) \<times> ITimer \<times> kernel" where
  "stop t k =
     (if \<not> running t then (Inl (runtime_error ''timer already stopped''), t, k)
      else
        case setitimer (type t) STOP_TIMER k of (tmp, timer_val, k1) \<Rightarrow>
          if tmp < 0 then (Inl (system_error (errno k1) ''call of setitimer failed''), t, k1)
          else
            (Inr (),
             t\<lparr>timer_value := timeval_times (it_value timer_val) (speed_factor t),
               running := False\<rparr>,
             k1))"

definition set_speed_factor :: "ITimer \<Rightarrow> double \<Rightarrow> kernel \<Rightarrow> (error + unit) \<times> ITimer \<times> kernel" where
  "set_speed_factor t factor k =
     (if dle factor (Finite 0) then (Inl (invalid_argument ''negative values not allowed''), t, k)
      else if isnan factor \<or> isinf factor
      then (Inl (invalid_argument ''invalid double value''), t, k)
      else if running t then adjust_speed t factor k
      else (Inr (), t\<lparr>speed_factor := factor\<rparr>, k))"

definition set_interval_value :: "ITimer \<Rightarrow> timeval \<Rightarrow> timeval \<Rightarrow> (error + unit) \<times> ITimer" where
  "set_interval_value t interval val =
     (if running t
      then (Inl (logic_error ''cannot set interval/value if timer is running''), t)
      else (Inr (), t\<lparr>timer_interval := interval, timer_value := val\<rparr>))"

text \<open>The overload taking seconds as \<^verbatim>\<open>double\<close>.\<close>

definition set_interval_value_seconds :: "ITimer \<Rightarrow> double \<Rightarrow> double \<Rightarrow> (error + unit) \<times> ITimer" where
  "set_interval_value_seconds t interval val =
     set_interval_value t (double_to_timeval interval) (double_to_timeval val)"

definition set_speed_to_normal :: "ITimer \<Rightarrow> kernel \<Rightarrow> (error + unit) \<times> ITimer \<times> kernel" where
  "set_speed_to_normal t k =
     (if running t then adjust_speed t (Finite 1) k
      else (Inr (), t\<lparr>speed_factor := Finite 1\<rparr>, k))"

text \<open>
  A binary file stream is modelled by the sequence of \<^verbatim>\<open>itimerval\<close> records it holds:
  \<^verbatim>\<open>write\<close> of \<^verbatim>\<open>sizeof(itimerval)\<close> bytes appends one record,
  \<^verbatim>\<open>read\<close> of as many bytes takes the first one. Bytes, padding and byte order are
  not modelled, and the stream is taken to be open and in a good state. A read at the end
  of the file stores nothing, so the zero-initialised buffer keeps its zeros.
  \<^verbatim>\<open>to_fstream\<close> and \<^verbatim>\<open>get_timer_value\<close> are \<^verbatim>\<open>const\<close> member
  functions, so they return no object; \<^verbatim>\<open>from_fstream\<close> and
  \<^verbatim>\<open>set_interval_value\<close> make no system call, so they return no kernel.
\<close>

type_synonym fstream = "itimerval list"

definition to_fstream :: "ITimer \<Rightarrow> fstream \<Rightarrow> kernel \<Rightarrow> (error + unit) \<times> fstream \<times> kernel" where
  "to_fstream t fs k =
     (if running t then
        case getitimer (type t) k of (tmp, val, k1) \<Rightarrow>
          if tmp < 0 then (Inl (system_error (errno k1) ''call of getitimer failed''), fs, k1)
          else
            let val = val\<lparr>it_value := timeval_times (it_value val) (speed_factor t)\<rparr>;
                val = val\<lparr>it_interval := timer_interval t\<rparr>
            in (Inr (), fs @ [val], k1)
      else
        let val = STOP_TIMER\<lparr>it_value := timer_value t\<rparr>;
            val = val\<lparr>it_interval := timer_interval t\<rparr>
        in (Inr (), fs @ [val], k))"

definition from_fstream :: "ITimer \<Rightarrow> fstream \<Rightarrow> (error + unit) \<times> ITimer \<times> fstream" where
  "from_fstream t fs =
     (if running t then (Inl (logic_error ''timer is running''), t, fs)
      else
        let val = (case fs of [] \<Rightarrow> STOP_TIMER | v # _ \<Rightarrow> v)
        in (Inr (), t\<lparr>timer_interval := it_interval val, timer_value := it_value val\<rparr>,
            drop 1 fs))"

definition get_timer_value :: "ITimer \<Rightarrow> kernel \<Rightarrow> (error + timeval) \<times> kernel" where
  "get_timer_value t k =
     (if running t then
        case getitimer (type t) k of (tmp, temp, k1) \<Rightarrow>
          if tmp < 0 then (Inl (system_error (errno k1) ''call of getitimer failed''), k1)
          else (Inr (it_value temp), k1)
      else (Inr (timer_value t), k))"

text \<open>
  The destructor \<^verbatim>\<open>~ITimer\<close>: a running timer is stopped, and when that fails the
  process exits with status \<^verbatim>\<open>EX_SOFTWARE\<close>. The first component of the result is
  the exit status when the process exits, \<open>None\<close> when the destructor returns.
\<close>

definition EX_SOFTWARE :: int where
  "EX_SOFTWARE = 70"

definition ITimer_dtor :: "ITimer \<Rightarrow> kernel \<Rightarrow> int option \<times> kernel" where
  "ITimer_dtor t k =
     (if running t then
        case stop t k of
          (Inl e, _, k1) \<Rightarrow> (Some EX_SOFTWARE, k1)
        | (Inr _, _, k1) \<Rightarrow> (None, k1)
      else (None, k))"

section \<open>Clock kinds: ITimer_Real, ITimer_Virtual, ITimer_Prof\<close>

text \<open>
  The three static members \<^verbatim>\<open>instance_exists\<close>, all initialised to \<^verbatim>\<open>false\<close>.
\<close>

record statics =
  ITimer_Real_instance_exists :: bool
  ITimer_Virtual_instance_exists :: bool
  ITimer_Prof_instance_exists :: bool

definition initial_statics :: statics where
  "initial_statics =
     \<lparr>ITimer_Real_instance_exists = False, ITimer_Virtual_instance_exists = False,
      ITimer_Prof_instance_exists = False\<rparr>"

text \<open>
  Each class has four constructors, one for each argument list of the base class. All four
  construct the base object first and then run the same body, so one definition per class
  covers them. When the body throws, the base object is destroyed again; it is not running,
  so \<^verbatim>\<open>~ITimer\<close> does nothing, and the destructor of the derived class does not run.
\<close>

definition ITimer_Real_ctor :: "ctor_args \<Rightarrow> statics \<Rightarrow> (error + ITimer) \<times> statics" where
  "ITimer_Real_ctor args s =
     (let base = ITimer_ctor ITIMER_REAL args
      in if ITimer_Real_instance_exists s then (Inl (logic_error ''instance exists''), s)
         else (Inr base, s\<lparr>ITimer_Real_instance_exists := True\<rparr>))"

definition ITimer_Virtual_ctor :: "ctor_args \<Rightarrow> statics \<Rightarrow> (error + ITimer) \<times> statics" where
  "ITimer_Virtual_ctor args s =
     (let base = ITimer_ctor ITIMER_VIRTUAL args
      in if ITimer_Virtual_instance_exists s then (Inl (logic_error ''instance exists''), s)
         else (Inr base, s\<lparr>ITimer_Virtual_instance_exists := True\<rparr>))"

definition ITimer_Prof_ctor :: "ctor_args \<Rightarrow> statics \<Rightarrow> (error + ITimer) \<times> statics" where
  "ITimer_Prof_ctor args s =
     (let base = ITimer_ctor ITIMER_PROF args
      in if ITimer_Prof_instance_exists s then (Inl (logic_error ''instance exists''), s)
         else (Inr base, s\<lparr>ITimer_Prof_instance_exists := True\<rparr>))"

text \<open>
  The destructor of a derived class clears the flag in its body; the destructor of the base
  class runs after it.
\<close>

definition ITimer_Real_dtor :: "ITimer \<Rightarrow> statics \<Rightarrow> kernel \<Rightarrow> int option \<times> statics \<times> kernel" where
  "ITimer_Real_dtor t s k =
     (let s1 = s\<lparr>ITimer_Real_instance_exists := False\<rparr>
      in case ITimer_dtor t k of (status, k1) \<Rightarrow> (status, s1, k1))"

definition ITimer_Virtual_dtor :: "ITimer \<Rightarrow> statics \<Rightarrow> kernel \<Rightarrow> int option \<times> statics \<times> kernel" where
  "ITimer_Virtual_dtor t s k =
     (let s1 = s\<lparr>ITimer_Virtual_instance_exists := False\<rparr>
      in case ITimer_dtor t k of (status, k1) \<Rightarrow> (status, s1, k1))"

definition ITimer_Prof_dtor :: "ITimer \<Rightarrow> statics \<Rightarrow> kernel \<Rightarrow> int option \<times> statics \<times> kernel" where
  "ITimer_Prof_dtor t s k =
     (let s1 = s\<lparr>ITimer_Prof_instance_exists := False\<rparr>
      in case ITimer_dtor t k of (status, k1) \<Rightarrow> (status, s1, k1))"

text \<open>
  Each class passes its own constant to the base constructor, so the field \<open>type\<close> of an
  object tells its class. \<open>instance_exists\<close> reads the flag of a class, \<open>construct\<close>
  calls its constructor, and \<open>destroy\<close> is the call of the virtual destructor.
\<close>

fun instance_exists :: "itimer_which \<Rightarrow> statics \<Rightarrow> bool" where
  "instance_exists ITIMER_REAL s = ITimer_Real_instance_exists s"
| "instance_exists ITIMER_VIRTUAL s = ITimer_Virtual_instance_exists s"
| "instance_exists ITIMER_PROF s = ITimer_Prof_instance_exists s"

fun construct :: "itimer_which \<Rightarrow> ctor_args \<Rightarrow> statics \<Rightarrow> (error + ITimer) \<times> statics" where
  "construct ITIMER_REAL args s = ITimer_Real_ctor args s"
| "construct ITIMER_VIRTUAL args s = ITimer_Virtual_ctor args s"
| "construct ITIMER_PROF args s = ITimer_Prof_ctor args s"

definition destroy :: "ITimer \<Rightarrow> statics \<Rightarrow> kernel \<Rightarrow> int option \<times> statics \<times> kernel" where
  "destroy t s k =
     (case type t of
        ITIMER_REAL \<Rightarrow> ITimer_Real_dtor t s k
      | ITIMER_VIRTUAL \<Rightarrow> ITimer_Virtual_dtor t s k
      | ITIMER_PROF \<Rightarrow> ITimer_Prof_dtor t s k)"

section \<open>A process using the library\<close>

text \<open>
  A process holds the static flags, the timer objects that are alive, the kernel, and its exit
  status once it has exited. It constructs objects, calls their public member functions and
  destroys them, in any order. Exceptions are caught by the process: a constructor that throws
  yields no object, a member function that throws leaves the object as the call left it.
\<close>

record process =
  flags :: statics
  objects :: "ITimer list"
  kern :: kernel
  exit_status :: "int option"

datatype member_function =
    Start
  | Stop
  | Set_speed_factor double
  | Set_interval_value timeval timeval
  | Set_speed_to_normal
  | From_fstream fstream

fun call :: "member_function \<Rightarrow> ITimer \<Rightarrow> kernel \<Rightarrow> ITimer \<times> kernel" where
  "call Start t k = snd (start t k)"
| "call Stop t k = snd (stop t k)"
| "call (Set_speed_factor factor) t k = snd (set_speed_factor t factor k)"
| "call (Set_interval_value interval val) t k = (snd (set_interval_value t interval val), k)"
| "call Set_speed_to_normal t k = snd (set_speed_to_normal t k)"
| "call (From_fstream fs) t k = (fst (snd (from_fstream t fs)), k)"

datatype event = New itimer_which ctor_args | Call nat member_function | Delete nat

fun step :: "process \<Rightarrow> event \<Rightarrow> process" where
  "step p (New which args) =
     (case construct which args (flags p) of
        (Inl e, s) \<Rightarrow> p\<lparr>flags := s\<rparr>
      | (Inr obj, s) \<Rightarrow> p\<lparr>flags := s, objects := objects p @ [obj]\<rparr>)"
| "step p (Call i m) =
     (if i < length (objects p) then
        case call m (objects p ! i) (kern p) of
          (t, k) \<Rightarrow> p\<lparr>objects := (objects p)[i := t], kern := k\<rparr>
      else p)"
| "step p (Delete i) =
     (if i < length (objects p) then
        case destroy (objects p ! i) (flags p) (kern p) of
          (status, s, k) \<Rightarrow>
            p\<lparr>flags := s, objects := take i (objects p) @ drop (Suc i) (objects p),
              kern := k, exit_status := status\<rparr>
      else p)"

text \<open>A process that has exited takes no further step.\<close>

fun run :: "process \<Rightarrow> event list \<Rightarrow> process" where
  "run p [] = p"
| "run p (e # es) = (case exit_status p of Some _ \<Rightarrow> p | None \<Rightarrow> run (step p e) es)"

definition initial_process :: "kernel \<Rightarrow> process" where
  "initial_process k = \<lparr>flags = initial_statics, objects = [], kern = k, exit_status = None\<rparr>"

text \<open>The number of live objects of a class.\<close>

definition live_instances :: "itimer_which \<Rightarrow> process \<Rightarrow> nat" where
  "live_instances which p = length (filter (\<lambda>t. type t = which) (objects p))"

text \<open>
  The invariant of the static flags: of each class at most one object is alive, and the flag
  of the class is set exactly when one is.
\<close>

definition registry_consistent :: "process \<Rightarrow> bool" where
  "registry_consistent p =
     (\<forall>which. live_instances which p \<le> 1 \<and>
        (instance_exists which (flags p) \<longleftrightarrow> live_instances which p = 1))"

section \<open>Sample objects\<close>

text \<open>
  The timer of the repository's test, \<^verbatim>\<open>ITimer_Real timer(2.0, 1.0)\<close>; the same timer
  running at twice the speed; a kernel whose real-time timer is then programmed with an
  interval of one second and has half a second left; a kernel with all timers disarmed; and
  a kernel whose next system call fails with \<^verbatim>\<open>EINVAL\<close>.
\<close>

definition test_timer :: ITimer where
  "test_timer = ITimer_ctor ITIMER_REAL (Seconds_Value (Finite 2) (Finite 1))"

definition fast_timer :: ITimer where
  "fast_timer = test_timer\<lparr>speed_factor := Finite 2, running := True\<rparr>"

definition idle_kernel :: kernel where
  "idle_kernel = \<lparr>itimers = (\<lambda>_. STOP_TIMER), faults = [], errno = 0\<rparr>"

definition live_kernel :: kernel where
  "live_kernel =
     idle_kernel\<lparr>itimers := (\<lambda>_. STOP_TIMER)
       (ITIMER_REAL := \<lparr>it_interval = \<lparr>tv_sec = 1, tv_usec = 0\<rparr>,
                        it_value = \<lparr>tv_sec = 0, tv_usec = 500000\<rparr>\<rparr>)\<rparr>"

definition EINVAL :: int where
  "EINVAL = 22"

definition faulty_kernel :: kernel where
  "faulty_kernel = live_kernel\<lparr>faults := [Some EINVAL]\<rparr>"

text \<open>A kernel whose first system call succeeds and whose second one fails.\<close>

definition second_fault_kernel :: kernel where
  "second_fault_kernel = live_kernel\<lparr>faults := [None, Some EINVAL]\<rparr>"

text \<open>
  A timer constructed from minus half a second, \<^verbatim>\<open>ITimer_Real timer(-0.5)\<close>; a
  profiling timer at half speed; and a run of a process: two real-time timers are requested,
  then a virtual one, the first timer is started and destroyed, and a real-time timer is
  requested again.
\<close>

definition half_negative_timer :: ITimer where
  "half_negative_timer = ITimer_ctor ITIMER_REAL (Seconds (Finite (- (1 / 2))))"

definition slow_timer :: ITimer where
  "slow_timer =
     (ITimer_ctor ITIMER_PROF (Interval \<lparr>tv_sec = 5, tv_usec = 0\<rparr>))\<lparr>speed_factor := Finite (1 / 2)\<rparr>"

definition sample_events :: "event list" where
  "sample_events =
     [New ITIMER_REAL (Seconds_Value (Finite 2) (Finite 1)),
      New ITIMER_REAL (Interval \<lparr>tv_sec = 1, tv_usec = 0\<rparr>),
      New ITIMER_VIRTUAL (Interval \<lparr>tv_sec = 1, tv_usec = 0\<rparr>),
      Call 0 Start,
      Delete 0,
      New ITIMER_REAL (Seconds (Finite 3))]"

text \<open>
  The values of the literals \<^verbatim>\<open>2.3\<close> and \<^verbatim>\<open>0.3\<close>, neither of which is
  representable; the test's timer running at three quarters of the speed; a kernel whose
  real-time timer has two seconds left; and one whose real-time timer has 249 microseconds
  left.
\<close>

definition literal_2_3 :: double where
  "literal_2_3 = round_double (23 / 10)"

definition literal_0_3 :: double where
  "literal_0_3 = round_double (3 / 10)"

definition three_quarter_timer :: ITimer where
  "three_quarter_timer = test_timer\<lparr>speed_factor := Finite (3 / 4), running := True\<rparr>"

definition two_left_kernel :: kernel where
  "two_left_kernel =
     idle_kernel\<lparr>itimers := (\<lambda>_. STOP_TIMER)
       (ITIMER_REAL := \<lparr>it_interval = \<lparr>tv_sec = 2, tv_usec = 666666\<rparr>,
                        it_value = \<lparr>tv_sec = 2, tv_usec = 0\<rparr>\<rparr>)\<rparr>"

definition nearly_expired_kernel :: kernel where
  "nearly_expired_kernel =
     idle_kernel\<lparr>itimers := (\<lambda>_. STOP_TIMER)
       (ITIMER_REAL := \<lparr>it_interval = \<lparr>tv_sec = 2, tv_usec = 0\<rparr>,
                        it_value = \<lparr>tv_sec = 0, tv_usec = 249\<rparr>\<rparr>)\<rparr>"

section \<open>Facts about the system calls\<close>

lemma setitimer_fails:
  "next_fault k = Some e \<Longrightarrow>
   setitimer which v k = (- 1, STOP_TIMER, k\<lparr>faults := tl (faults k), errno := e\<rparr>)"
  by (simp add: setitimer_def)

lemma setitimer_succeeds:
  "next_fault k = None \<Longrightarrow>
   setitimer which v k =
     (0, itimers k which, k\<lparr>itimers := (itimers k)(which := v), faults := tl (faults k)\<rparr>)"
  by (simp add: setitimer_def)

lemma getitimer_fails:
  "next_fault k = Some e \<Longrightarrow>
   getitimer which k = (- 1, STOP_TIMER, k\<lparr>faults := tl (faults k), errno := e\<rparr>)"
  by (simp add: getitimer_def)

lemma getitimer_succeeds:
  "next_fault k = None \<Longrightarrow>
   getitimer which k = (0, itimers k which, k\<lparr>faults := tl (faults k)\<rparr>)"
  by (simp add: getitimer_def)

lemma itimerval_overwrite:
  "(r :: itimerval)\<lparr>it_interval := a, it_value := b\<rparr> = \<lparr>it_interval = a, it_value = b\<rparr>"
  by (cases r) simp

section \<open>Computed values\<close>

text \<open>
  The conversions and the scaling operators at the inputs used below, computed from the
  definitions with the rounding of every intermediate \<^verbatim>\<open>double\<close>. Rounding shows:
  249 microseconds multiplied by 1.0 are 248 microseconds, one second and one microsecond
  divided by 1.0 is one second, and the literal 2.3 converts to 2 seconds and 299999
  microseconds.
\<close>

lemmas arith_defs =
  timeval_divide_def timeval_times_def double_to_timeval_def timeval_to_double_def
  USEC_PER_SEC_def integer_to_double_def trunc_def dinf_def INT64_MIN_def
  round_double_def round_even_def pow2_def expo.simps

lemma computed_double_to_timeval:
  "double_to_timeval (Finite 1) = \<lparr>tv_sec = 1, tv_usec = 0\<rparr>"
  "double_to_timeval (Finite 2) = \<lparr>tv_sec = 2, tv_usec = 0\<rparr>"
  "double_to_timeval (Finite 3) = \<lparr>tv_sec = 3, tv_usec = 0\<rparr>"
  "double_to_timeval (Finite (- (1 / 2))) = \<lparr>tv_sec = 0, tv_usec = - 500000\<rparr>"
  "double_to_timeval (Finite 10000000000000000000) = \<lparr>tv_sec = - 9223372036854775808, tv_usec = 0\<rparr>"
  "double_to_timeval literal_2_3 = \<lparr>tv_sec = 2, tv_usec = 299999\<rparr>"
  "double_to_timeval literal_0_3 = \<lparr>tv_sec = 0, tv_usec = 300000\<rparr>"
  by (simp_all add: arith_defs literal_2_3_def literal_0_3_def)

lemma computed_timeval_divide:
  "timeval_divide \<lparr>tv_sec = 2, tv_usec = 0\<rparr> (Finite 1) =
     \<lparr>tv_sec = 2, tv_usec = 0\<rparr>"
  "timeval_divide \<lparr>tv_sec = 1, tv_usec = 0\<rparr> (Finite 1) =
     \<lparr>tv_sec = 1, tv_usec = 0\<rparr>"
  "timeval_divide \<lparr>tv_sec = - 1, tv_usec = 0\<rparr> (Finite 1) =
     \<lparr>tv_sec = - 1, tv_usec = 0\<rparr>"
  "timeval_divide \<lparr>tv_sec = 0, tv_usec = 1\<rparr> (Finite 2) =
     \<lparr>tv_sec = 0, tv_usec = 0\<rparr>"
  "timeval_divide \<lparr>tv_sec = 1, tv_usec = 0\<rparr> (Finite 2) =
     \<lparr>tv_sec = 0, tv_usec = 500000\<rparr>"
  "timeval_divide \<lparr>tv_sec = 1, tv_usec = 1\<rparr> (Finite 1) =
     \<lparr>tv_sec = 1, tv_usec = 0\<rparr>"
  "timeval_divide \<lparr>tv_sec = 1, tv_usec = 0\<rparr> (Finite (1 / 18446744073709551616)) =
     \<lparr>tv_sec = - 9223372036854775808, tv_usec = 0\<rparr>"
  "timeval_divide \<lparr>tv_sec = 0, tv_usec = 0\<rparr> (Finite 1) =
     \<lparr>tv_sec = 0, tv_usec = 0\<rparr>"
  "timeval_divide \<lparr>tv_sec = 2, tv_usec = 0\<rparr> (Finite 4) =
     \<lparr>tv_sec = 0, tv_usec = 500000\<rparr>"
  "timeval_divide \<lparr>tv_sec = 2, tv_usec = 0\<rparr> (Finite (5 / 4)) =
     \<lparr>tv_sec = 1, tv_usec = 600000\<rparr>"
  "timeval_divide \<lparr>tv_sec = 0, tv_usec = - 249\<rparr> (Finite 1) =
     \<lparr>tv_sec = 0, tv_usec = - 248\<rparr>"
  "timeval_divide \<lparr>tv_sec = 0, tv_usec = - 500000\<rparr> (Finite 1) =
     \<lparr>tv_sec = 0, tv_usec = - 500000\<rparr>"
  by (simp_all add: arith_defs)

lemma computed_timeval_times:
  "timeval_times \<lparr>tv_sec = 0, tv_usec = 500000\<rparr> (Finite 2) =
     \<lparr>tv_sec = 1, tv_usec = 0\<rparr>"
  "timeval_times \<lparr>tv_sec = 0, tv_usec = 249\<rparr> (Finite 1) =
     \<lparr>tv_sec = 0, tv_usec = 248\<rparr>"
  "timeval_times \<lparr>tv_sec = 0, tv_usec = 500000\<rparr> (Finite (1 / 2)) =
     \<lparr>tv_sec = 0, tv_usec = 250000\<rparr>"
  "timeval_times \<lparr>tv_sec = 2, tv_usec = 0\<rparr> (Finite (5404319552844595 / 9007199254740992)) =
     \<lparr>tv_sec = 1, tv_usec = 199999\<rparr>"
  "timeval_times \<lparr>tv_sec = 1, tv_usec = 0\<rparr> (Finite 1) =
     \<lparr>tv_sec = 1, tv_usec = 0\<rparr>"
  "timeval_times \<lparr>tv_sec = 2, tv_usec = 666666\<rparr> (Finite (3 / 4)) =
     \<lparr>tv_sec = 1, tv_usec = 999999\<rparr>"
  by (simp_all add: arith_defs)

lemma computed_ddiv:
  "ddiv (Finite 2) (Finite 4) = Finite (1 / 2)"
  "ddiv (Finite (3 / 4)) (Finite (5 / 4)) = Finite (5404319552844595 / 9007199254740992)"
  by (simp_all add: arith_defs)

lemma test_timer_fields:
  "test_timer =
     \<lparr>timer_value = \<lparr>tv_sec = 1, tv_usec = 0\<rparr>, timer_interval = \<lparr>tv_sec = 2, tv_usec = 0\<rparr>,
      type = ITIMER_REAL, speed_factor = Finite 1, running = False\<rparr>"
  by (simp add: test_timer_def computed_double_to_timeval)

lemma half_negative_timer_fields:
  "half_negative_timer =
     \<lparr>timer_value = \<lparr>tv_sec = 0, tv_usec = - 500000\<rparr>,
      timer_interval = \<lparr>tv_sec = 0, tv_usec = - 500000\<rparr>,
      type = ITIMER_REAL, speed_factor = Finite 1, running = False\<rparr>"
  by (simp add: half_negative_timer_def computed_double_to_timeval)

lemmas computed =
  computed_double_to_timeval computed_timeval_divide computed_timeval_times computed_ddiv

lemmas sample_simps =
  test_timer_fields half_negative_timer_fields fast_timer_def three_quarter_timer_def
  slow_timer_def idle_kernel_def live_kernel_def faulty_kernel_def second_fault_kernel_def
  two_left_kernel_def nearly_expired_kernel_def EINVAL_def STOP_TIMER_def next_fault_def

section \<open>The state machine\<close>

text \<open>
  Claim C9. \<^verbatim>\<open>set_interval_value\<close> on a running timer throws
  \<^verbatim>\<open>std::logic_error\<close> (the spec's TimerRunning) and leaves the object as it was:
  interval, value, speed factor and running flag. On a stopped timer it stores the given
  interval and value, whatever they are and however they compare, and changes nothing else.
  Both overloads behave so; the one taking seconds as \<^verbatim>\<open>double\<close> stores the
  conversions of its arguments.
\<close>

theorem set_interval_value_stopped_only:
  "(running t \<longrightarrow>
      set_interval_value t interval val =
        (Inl (logic_error ''cannot set interval/value if timer is running''), t) \<and>
      set_interval_value_seconds t x y =
        (Inl (logic_error ''cannot set interval/value if timer is running''), t)) \<and>
   (\<not> running t \<longrightarrow>
      set_interval_value t interval val =
        (Inr (), t\<lparr>timer_interval := interval, timer_value := val\<rparr>) \<and>
      set_interval_value_seconds t x y =
        (Inr (), t\<lparr>timer_interval := double_to_timeval x,
                    timer_value := double_to_timeval y\<rparr>))"
  by (simp add: set_interval_value_def set_interval_value_seconds_def)

theorem set_interval_value_stopped_only_witness:
  "running fast_timer \<and>
   set_interval_value fast_timer \<lparr>tv_sec = 1, tv_usec = 0\<rparr> \<lparr>tv_sec = 3, tv_usec = 0\<rparr> =
     (Inl (logic_error ''cannot set interval/value if timer is running''), fast_timer) \<and>
   set_interval_value_seconds fast_timer literal_0_3 literal_2_3 =
     (Inl (logic_error ''cannot set interval/value if timer is running''), fast_timer) \<and>
   \<not> running test_timer \<and>
   set_interval_value test_timer \<lparr>tv_sec = 1, tv_usec = 0\<rparr> \<lparr>tv_sec = 3, tv_usec = 0\<rparr> =
     (Inr (), \<lparr>timer_value = \<lparr>tv_sec = 3, tv_usec = 0\<rparr>,
               timer_interval = \<lparr>tv_sec = 1, tv_usec = 0\<rparr>,
               type = ITIMER_REAL, speed_factor = Finite 1, running = False\<rparr>) \<and>
   set_interval_value_seconds test_timer literal_0_3 literal_2_3 =
     (Inr (), \<lparr>timer_value = \<lparr>tv_sec = 2, tv_usec = 299999\<rparr>,
               timer_interval = \<lparr>tv_sec = 0, tv_usec = 300000\<rparr>,
               type = ITIMER_REAL, speed_factor = Finite 1, running = False\<rparr>)"
  using
    set_interval_value_stopped_only
      [of fast_timer "\<lparr>tv_sec = 1, tv_usec = 0\<rparr>" "\<lparr>tv_sec = 3, tv_usec = 0\<rparr>"
          literal_0_3 literal_2_3]
    set_interval_value_stopped_only
      [of test_timer "\<lparr>tv_sec = 1, tv_usec = 0\<rparr>" "\<lparr>tv_sec = 3, tv_usec = 0\<rparr>"
          literal_0_3 literal_2_3]
  by (simp add: sample_simps computed)

text \<open>
  Claim C8. \<^verbatim>\<open>set_speed_factor\<close> called with NaN, an infinity, zero or a negative
  number throws \<^verbatim>\<open>std::invalid_argument\<close> (the spec's InvalidSpeedFactor), whether the
  timer runs or not, and leaves the object and the kernel as they were. Called with a finite
  positive number on a stopped timer, it stores the number as speed factor and does nothing
  else.
\<close>

theorem set_speed_factor_validation:
  "((factor = NaN \<or> factor = PInf \<or> factor = NInf \<or> (factor = Finite x \<and> x \<le> 0)) \<longrightarrow>
      fst (set_speed_factor t factor k) \<in>
        {Inl (invalid_argument ''negative values not allowed''),
         Inl (invalid_argument ''invalid double value'')} \<and>
      snd (set_speed_factor t factor k) = (t, k)) \<and>
   (factor = Finite x \<and> 0 < x \<and> \<not> running t \<longrightarrow>
      set_speed_factor t factor k = (Inr (), t\<lparr>speed_factor := factor\<rparr>, k))"
  by (auto simp add: set_speed_factor_def)

theorem set_speed_factor_validation_witness:
  "set_speed_factor fast_timer (Finite 0) live_kernel =
     (Inl (invalid_argument ''negative values not allowed''), fast_timer, live_kernel) \<and>
   set_speed_factor test_timer (Finite (- 1)) live_kernel =
     (Inl (invalid_argument ''negative values not allowed''), test_timer, live_kernel) \<and>
   set_speed_factor test_timer NaN live_kernel =
     (Inl (invalid_argument ''invalid double value''), test_timer, live_kernel) \<and>
   set_speed_factor fast_timer PInf live_kernel =
     (Inl (invalid_argument ''invalid double value''), fast_timer, live_kernel) \<and>
   set_speed_factor fast_timer NInf live_kernel =
     (Inl (invalid_argument ''negative values not allowed''), fast_timer, live_kernel) \<and>
   \<not> running test_timer \<and> speed_factor test_timer = Finite 1 \<and>
   set_speed_factor test_timer (Finite (1 / 2)) idle_kernel =
     (Inr (), test_timer\<lparr>speed_factor := Finite (1 / 2)\<rparr>, idle_kernel)"
  using set_speed_factor_validation [of "Finite 0" 0 fast_timer live_kernel]
    set_speed_factor_validation [of "Finite (- 1)" "- 1" test_timer live_kernel]
    set_speed_factor_validation [of NaN 0 test_timer live_kernel]
    set_speed_factor_validation [of PInf 0 fast_timer live_kernel]
    set_speed_factor_validation [of NInf 0 fast_timer live_kernel]
    set_speed_factor_validation [of "Finite (1 / 2)" "1 / 2" test_timer idle_kernel]
  by (simp add: set_speed_factor_def test_timer_def)

text \<open>
  Claim C4. \<^verbatim>\<open>stop\<close> on a stopped timer throws \<^verbatim>\<open>std::runtime_error\<close>
  with the message "timer already stopped" (the spec's AlreadyStopped). On a running timer
  it programs the clock with zeros and captures the previous setting in the same system
  call. When the call fails it throws \<^verbatim>\<open>std::system_error\<close> and the object is
  unchanged, still running. When the call succeeds, the stored value becomes the captured
  remaining value multiplied by the current speed factor, the timer is stopped, and the
  interval, the clock kind and the speed factor are unchanged.
\<close>

theorem stop_captures_and_normalizes:
  "(\<not> running t \<longrightarrow> stop t k = (Inl (runtime_error ''timer already stopped''), t, k)) \<and>
   (running t \<and> next_fault k = Some e \<longrightarrow>
      stop t k =
        (Inl (system_error e ''call of setitimer failed''), t,
         k\<lparr>faults := tl (faults k), errno := e\<rparr>)) \<and>
   (running t \<and> next_fault k = None \<longrightarrow>
      stop t k =
        (Inr (),
         t\<lparr>timer_value := timeval_times (it_value (itimers k (type t))) (speed_factor t),
           running := False\<rparr>,
         k\<lparr>itimers := (itimers k)(type t := STOP_TIMER), faults := tl (faults k)\<rparr>))"
  by (simp add: stop_def setitimer_fails setitimer_succeeds)

theorem stop_captures_and_normalizes_witness:
  "stop test_timer live_kernel =
     (Inl (runtime_error ''timer already stopped''), test_timer, live_kernel) \<and>
   stop fast_timer faulty_kernel =
     (Inl (system_error EINVAL ''call of setitimer failed''), fast_timer,
      live_kernel\<lparr>errno := EINVAL\<rparr>) \<and>
   stop fast_timer live_kernel =
     (Inr (),
      \<lparr>timer_value = \<lparr>tv_sec = 1, tv_usec = 0\<rparr>,
       timer_interval = \<lparr>tv_sec = 2, tv_usec = 0\<rparr>,
       type = ITIMER_REAL, speed_factor = Finite 2, running = False\<rparr>,
      idle_kernel) \<and>
   stop (test_timer\<lparr>running := True\<rparr>) nearly_expired_kernel =
     (Inr (),
      \<lparr>timer_value = \<lparr>tv_sec = 0, tv_usec = 248\<rparr>,
       timer_interval = \<lparr>tv_sec = 2, tv_usec = 0\<rparr>,
       type = ITIMER_REAL, speed_factor = Finite 1, running = False\<rparr>,
      idle_kernel) \<and>
   stop (three_quarter_timer\<lparr>type := ITIMER_PROF\<rparr>)
       (idle_kernel\<lparr>itimers := (\<lambda>_. STOP_TIMER)
          (ITIMER_PROF := \<lparr>it_interval = \<lparr>tv_sec = 2, tv_usec = 666666\<rparr>,
                           it_value = \<lparr>tv_sec = 2, tv_usec = 666666\<rparr>\<rparr>)\<rparr>) =
     (Inr (),
      \<lparr>timer_value = \<lparr>tv_sec = 1, tv_usec = 999999\<rparr>,
       timer_interval = \<lparr>tv_sec = 2, tv_usec = 0\<rparr>,
       type = ITIMER_PROF, speed_factor = Finite (3 / 4), running = False\<rparr>,
      idle_kernel)"
  using stop_captures_and_normalizes [of test_timer live_kernel 0]
    stop_captures_and_normalizes [of fast_timer faulty_kernel EINVAL]
    stop_captures_and_normalizes [of fast_timer live_kernel 0]
    stop_captures_and_normalizes [of "test_timer\<lparr>running := True\<rparr>" nearly_expired_kernel 0]
    stop_captures_and_normalizes
      [of "three_quarter_timer\<lparr>type := ITIMER_PROF\<rparr>"
          "idle_kernel\<lparr>itimers := (\<lambda>_. STOP_TIMER)
             (ITIMER_PROF := \<lparr>it_interval = \<lparr>tv_sec = 2, tv_usec = 666666\<rparr>,
                              it_value = \<lparr>tv_sec = 2, tv_usec = 666666\<rparr>\<rparr>)\<rparr>" 0]
  by (simp add: sample_simps computed fun_eq_iff)

text \<open>
  Claim C3, as stated, fails where two guards of \<^verbatim>\<open>start\<close> apply at once: for
  a stopped timer whose scaled interval is zero in both fields and whose scaled value has
  negative seconds, \<^verbatim>\<open>start\<close> throws "timer value is negative" (NegativeValue),
  not the exception for a zero interval (DegenerateInterval).
\<close>

theorem start_zero_interval_counterexample:
  "\<not> running (test_timer\<lparr>timer_interval := \<lparr>tv_sec = 0, tv_usec = 0\<rparr>,
                          timer_value := \<lparr>tv_sec = - 1, tv_usec = 0\<rparr>\<rparr>) \<and>
   timeval_divide \<lparr>tv_sec = 0, tv_usec = 0\<rparr> (speed_factor test_timer) =
     \<lparr>tv_sec = 0, tv_usec = 0\<rparr> \<and>
   fst (start (test_timer\<lparr>timer_interval := \<lparr>tv_sec = 0, tv_usec = 0\<rparr>,
                           timer_value := \<lparr>tv_sec = - 1, tv_usec = 0\<rparr>\<rparr>) idle_kernel) =
     Inl (runtime_error ''timer value is negative'') \<and>
   fst (start (test_timer\<lparr>timer_interval := \<lparr>tv_sec = 0, tv_usec = 0\<rparr>,
                           timer_value := \<lparr>tv_sec = - 1, tv_usec = 0\<rparr>\<rparr>) idle_kernel) \<noteq>
     Inl (runtime_error ''invalid timer values due to to a to small speed factor'')"
  by (simp add: start_def Let_def sample_simps computed)

text \<open>
  Claim C3, amended. \<^verbatim>\<open>start\<close> tests its guards in this order, and the first one
  that applies decides the exception. A running timer:
  \<^verbatim>\<open>std::logic_error\<close> "timer already started" (the spec's AlreadyStarted).
  A scaled interval \<open>timer_interval / speed_factor\<close> with negative seconds:
  \<^verbatim>\<open>std::runtime_error\<close> "timer interval is negative" (NegativeInterval). Otherwise a
  scaled value with negative seconds: "timer value is negative" (NegativeValue). Otherwise a
  scaled interval that is zero in both fields: "invalid timer values ..."
  (DegenerateInterval). Otherwise the clock is programmed with the scaled pair; when the
  system call fails, \<^verbatim>\<open>std::system_error\<close> with the error code
  (ClockProgrammingFailed). Whenever \<^verbatim>\<open>start\<close> throws, the object is unchanged; it
  returns normally only from a stopped timer, and then the only change is that the timer is
  running.
\<close>

theorem start_guards_and_transition:
  fixes t :: ITimer and k :: kernel
  defines "scaled_interval \<equiv> timeval_divide (timer_interval t) (speed_factor t)"
    and "scaled_value \<equiv> timeval_divide (timer_value t) (speed_factor t)"
  shows
  "(running t \<longrightarrow> start t k = (Inl (logic_error ''timer already started''), t, k)) \<and>
   (\<not> running t \<and> tv_sec scaled_interval < 0 \<longrightarrow>
      start t k = (Inl (runtime_error ''timer interval is negative''), t, k)) \<and>
   (\<not> running t \<and> 0 \<le> tv_sec scaled_interval \<and> tv_sec scaled_value < 0 \<longrightarrow>
      start t k = (Inl (runtime_error ''timer value is negative''), t, k)) \<and>
   (\<not> running t \<and> 0 \<le> tv_sec scaled_value \<and>
    tv_sec scaled_interval = 0 \<and> tv_usec scaled_interval = 0 \<longrightarrow>
      start t k =
        (Inl (runtime_error ''invalid timer values due to to a to small speed factor''), t, k)) \<and>
   (\<not> running t \<and> 0 \<le> tv_sec scaled_interval \<and> 0 \<le> tv_sec scaled_value \<and>
    (tv_sec scaled_interval \<noteq> 0 \<or> tv_usec scaled_interval \<noteq> 0) \<and> next_fault k = Some e \<longrightarrow>
      start t k =
        (Inl (system_error e ''call of setitimer failed''), t,
         k\<lparr>faults := tl (faults k), errno := e\<rparr>)) \<and>
   (\<not> running t \<and> 0 \<le> tv_sec scaled_interval \<and> 0 \<le> tv_sec scaled_value \<and>
    (tv_sec scaled_interval \<noteq> 0 \<or> tv_usec scaled_interval \<noteq> 0) \<and> next_fault k = None \<longrightarrow>
      start t k =
        (Inr (), t\<lparr>running := True\<rparr>,
         k\<lparr>itimers := (itimers k)
             (type t := \<lparr>it_interval = scaled_interval, it_value = scaled_value\<rparr>),
           faults := tl (faults k)\<rparr>)) \<and>
   (fst (start t k) \<noteq> Inr () \<longrightarrow> fst (snd (start t k)) = t) \<and>
   (fst (start t k) = Inr () \<longrightarrow> \<not> running t \<and> fst (snd (start t k)) = t\<lparr>running := True\<rparr>)"
proof -
  have frame: "fst (start t k) \<noteq> Inr () \<longrightarrow> fst (snd (start t k)) = t"
    by (simp add: start_def Let_def split: prod.splits)
  have success: "fst (start t k) = Inr () \<longrightarrow>
      \<not> running t \<and> fst (snd (start t k)) = t\<lparr>running := True\<rparr>"
    by (simp add: start_def Let_def split: prod.splits)
  have guards: "running t \<longrightarrow> start t k = (Inl (logic_error ''timer already started''), t, k)"
    "\<not> running t \<and> tv_sec scaled_interval < 0 \<longrightarrow>
      start t k = (Inl (runtime_error ''timer interval is negative''), t, k)"
    "\<not> running t \<and> 0 \<le> tv_sec scaled_interval \<and> tv_sec scaled_value < 0 \<longrightarrow>
      start t k = (Inl (runtime_error ''timer value is negative''), t, k)"
    "\<not> running t \<and> 0 \<le> tv_sec scaled_value \<and>
     tv_sec scaled_interval = 0 \<and> tv_usec scaled_interval = 0 \<longrightarrow>
      start t k =
        (Inl (runtime_error ''invalid timer values due to to a to small speed factor''), t, k)"
    by (simp_all add: start_def Let_def scaled_interval_def scaled_value_def)
  have fails: "\<not> running t \<and> 0 \<le> tv_sec scaled_interval \<and> 0 \<le> tv_sec scaled_value \<and>
    (tv_sec scaled_interval \<noteq> 0 \<or> tv_usec scaled_interval \<noteq> 0) \<and> next_fault k = Some e \<longrightarrow>
      start t k =
        (Inl (system_error e ''call of setitimer failed''), t,
         k\<lparr>faults := tl (faults k), errno := e\<rparr>)"
    by (auto simp add: start_def Let_def scaled_interval_def scaled_value_def setitimer_fails)
  have succeeds: "\<not> running t \<and> 0 \<le> tv_sec scaled_interval \<and> 0 \<le> tv_sec scaled_value \<and>
    (tv_sec scaled_interval \<noteq> 0 \<or> tv_usec scaled_interval \<noteq> 0) \<and> next_fault k = None \<longrightarrow>
      start t k =
        (Inr (), t\<lparr>running := True\<rparr>,
         k\<lparr>itimers := (itimers k)
             (type t := \<lparr>it_interval = scaled_interval, it_value = scaled_value\<rparr>),
           faults := tl (faults k)\<rparr>)"
    by (auto simp add: start_def Let_def scaled_interval_def scaled_value_def setitimer_succeeds)
  from guards fails succeeds frame success show ?thesis by blast
qed

theorem start_guards_and_transition_witness:
  "start fast_timer live_kernel =
     (Inl (logic_error ''timer already started''), fast_timer, live_kernel) \<and>
   start (test_timer\<lparr>timer_interval := \<lparr>tv_sec = - 1, tv_usec = 0\<rparr>\<rparr>) idle_kernel =
     (Inl (runtime_error ''timer interval is negative''),
      test_timer\<lparr>timer_interval := \<lparr>tv_sec = - 1, tv_usec = 0\<rparr>\<rparr>, idle_kernel) \<and>
   timeval_divide \<lparr>tv_sec = 1, tv_usec = 0\<rparr> (Finite (1 / 2 ^ 64)) =
     \<lparr>tv_sec = - (2 ^ 63), tv_usec = 0\<rparr> \<and>
   start (test_timer\<lparr>timer_interval := \<lparr>tv_sec = 1, tv_usec = 0\<rparr>,
                     speed_factor := Finite (1 / 2 ^ 64)\<rparr>) idle_kernel =
     (Inl (runtime_error ''timer interval is negative''),
      test_timer\<lparr>timer_interval := \<lparr>tv_sec = 1, tv_usec = 0\<rparr>,
                 speed_factor := Finite (1 / 2 ^ 64)\<rparr>, idle_kernel) \<and>
   start (test_timer\<lparr>timer_value := \<lparr>tv_sec = - 1, tv_usec = 0\<rparr>\<rparr>) idle_kernel =
     (Inl (runtime_error ''timer value is negative''),
      test_timer\<lparr>timer_value := \<lparr>tv_sec = - 1, tv_usec = 0\<rparr>\<rparr>, idle_kernel) \<and>
   start (test_timer\<lparr>timer_interval := \<lparr>tv_sec = 0, tv_usec = 1\<rparr>, speed_factor := Finite 2\<rparr>)
       idle_kernel =
     (Inl (runtime_error ''invalid timer values due to to a to small speed factor''),
      test_timer\<lparr>timer_interval := \<lparr>tv_sec = 0, tv_usec = 1\<rparr>, speed_factor := Finite 2\<rparr>,
      idle_kernel) \<and>
   start test_timer faulty_kernel =
     (Inl (system_error EINVAL ''call of setitimer failed''), test_timer,
      live_kernel\<lparr>errno := EINVAL\<rparr>) \<and>
   start test_timer idle_kernel =
     (Inr (), test_timer\<lparr>running := True\<rparr>,
      idle_kernel\<lparr>itimers := (\<lambda>_. STOP_TIMER)
        (ITIMER_REAL := \<lparr>it_interval = \<lparr>tv_sec = 2, tv_usec = 0\<rparr>,
                         it_value = \<lparr>tv_sec = 1, tv_usec = 0\<rparr>\<rparr>)\<rparr>) \<and>
   start (test_timer\<lparr>timer_interval := \<lparr>tv_sec = 1, tv_usec = 1\<rparr>\<rparr>) idle_kernel =
     (Inr (), test_timer\<lparr>timer_interval := \<lparr>tv_sec = 1, tv_usec = 1\<rparr>, running := True\<rparr>,
      idle_kernel\<lparr>itimers := (\<lambda>_. STOP_TIMER)
        (ITIMER_REAL := \<lparr>it_interval = \<lparr>tv_sec = 1, tv_usec = 0\<rparr>,
                         it_value = \<lparr>tv_sec = 1, tv_usec = 0\<rparr>\<rparr>)\<rparr>)"
  using start_guards_and_transition [of fast_timer live_kernel 0]
    start_guards_and_transition
      [of "test_timer\<lparr>timer_interval := \<lparr>tv_sec = - 1, tv_usec = 0\<rparr>\<rparr>" idle_kernel 0]
    start_guards_and_transition
      [of "test_timer\<lparr>timer_interval := \<lparr>tv_sec = 1, tv_usec = 0\<rparr>,
                      speed_factor := Finite (1 / 2 ^ 64)\<rparr>" idle_kernel 0]
    start_guards_and_transition
      [of "test_timer\<lparr>timer_value := \<lparr>tv_sec = - 1, tv_usec = 0\<rparr>\<rparr>" idle_kernel 0]
    start_guards_and_transition
      [of "test_timer\<lparr>timer_interval := \<lparr>tv_sec = 0, tv_usec = 1\<rparr>, speed_factor := Finite 2\<rparr>"
          idle_kernel 0]
    start_guards_and_transition [of test_timer faulty_kernel EINVAL]
    start_guards_and_transition [of test_timer idle_kernel 0]
    start_guards_and_transition
      [of "test_timer\<lparr>timer_interval := \<lparr>tv_sec = 1, tv_usec = 1\<rparr>\<rparr>" idle_kernel 0]
  by (simp add: sample_simps computed fun_eq_iff)

text \<open>
  Claim C2. On a running timer, \<^verbatim>\<open>set_speed_factor\<close> with a finite positive factor
  \<open>f\<close> runs \<^verbatim>\<open>adjust_speed\<close>: one system call disables the clock and captures its
  setting; a second one programs it with the interval \<open>timer_interval / f\<close> and the value
  \<open>captured * (speed_factor / f)\<close>, the captured value scaled by the ratio of the two
  factors; the speed factor becomes \<open>f\<close> only when the second call has succeeded. When
  either call fails, \<^verbatim>\<open>std::system_error\<close> is thrown with the error code and the
  object, its speed factor included, is unchanged. After a failure of the second call the
  clock is left disabled.
\<close>

theorem set_speed_factor_running_rescales:
  "running t \<and> factor = Finite f \<and> 0 < f \<longrightarrow>
   (next_fault k = Some e \<longrightarrow>
      set_speed_factor t factor k =
        (Inl (system_error e ''call of setitimer failed''), t,
         k\<lparr>faults := tl (faults k), errno := e\<rparr>)) \<and>
   (next_fault k = None \<and> next_fault (k\<lparr>faults := tl (faults k)\<rparr>) = Some e \<longrightarrow>
      set_speed_factor t factor k =
        (Inl (system_error e ''call of setitimer failed''), t,
         k\<lparr>itimers := (itimers k)(type t := STOP_TIMER),
           faults := tl (tl (faults k)), errno := e\<rparr>)) \<and>
   (next_fault k = None \<and> next_fault (k\<lparr>faults := tl (faults k)\<rparr>) = None \<longrightarrow>
      set_speed_factor t factor k =
        (Inr (), t\<lparr>speed_factor := factor\<rparr>,
         k\<lparr>itimers := (itimers k)
             (type t :=
                \<lparr>it_interval = timeval_divide (timer_interval t) factor,
                 it_value = timeval_times (it_value (itimers k (type t)))
                              (ddiv (speed_factor t) factor)\<rparr>),
           faults := tl (tl (faults k))\<rparr>))"
proof -
  have nf: "\<And>g. next_fault (k\<lparr>itimers := g, faults := tl (faults k)\<rparr>) =
      next_fault (k\<lparr>faults := tl (faults k)\<rparr>)"
    by (simp add: next_fault_def)
  show ?thesis
    by (auto simp add: set_speed_factor_def adjust_speed_def Let_def nf
        setitimer_fails setitimer_succeeds itimerval_overwrite)
qed

theorem set_speed_factor_running_rescales_witness:
  "running fast_timer \<and> speed_factor fast_timer = Finite 2 \<and>
   set_speed_factor fast_timer (Finite 4) faulty_kernel =
     (Inl (system_error EINVAL ''call of setitimer failed''), fast_timer,
      live_kernel\<lparr>errno := EINVAL\<rparr>) \<and>
   set_speed_factor fast_timer (Finite 4) second_fault_kernel =
     (Inl (system_error EINVAL ''call of setitimer failed''), fast_timer,
      idle_kernel\<lparr>errno := EINVAL\<rparr>) \<and>
   set_speed_factor fast_timer (Finite 4) live_kernel =
     (Inr (), fast_timer\<lparr>speed_factor := Finite 4\<rparr>,
      idle_kernel\<lparr>itimers := (\<lambda>_. STOP_TIMER)
        (ITIMER_REAL := \<lparr>it_interval = \<lparr>tv_sec = 0, tv_usec = 500000\<rparr>,
                         it_value = \<lparr>tv_sec = 0, tv_usec = 250000\<rparr>\<rparr>)\<rparr>) \<and>
   running three_quarter_timer \<and> speed_factor three_quarter_timer = Finite (3 / 4) \<and>
   set_speed_factor three_quarter_timer (Finite (5 / 4)) two_left_kernel =
     (Inr (), three_quarter_timer\<lparr>speed_factor := Finite (5 / 4)\<rparr>,
      idle_kernel\<lparr>itimers := (\<lambda>_. STOP_TIMER)
        (ITIMER_REAL := \<lparr>it_interval = \<lparr>tv_sec = 1, tv_usec = 600000\<rparr>,
                         it_value = \<lparr>tv_sec = 1, tv_usec = 199999\<rparr>\<rparr>)\<rparr>)"
  using set_speed_factor_running_rescales [of fast_timer "Finite 4" 4 faulty_kernel EINVAL]
    set_speed_factor_running_rescales [of fast_timer "Finite 4" 4 second_fault_kernel EINVAL]
    set_speed_factor_running_rescales [of fast_timer "Finite 4" 4 live_kernel 0]
    set_speed_factor_running_rescales
      [of three_quarter_timer "Finite (5 / 4)" "5 / 4" two_left_kernel 0]
  by (simp add: sample_simps computed fun_eq_iff del: ddiv.simps)

text \<open>
  Claim C1. \<^verbatim>\<open>get_timer_value\<close> on the stopped sample timer returns the stored
  value, one second. \<^verbatim>\<open>get_timer_value\<close> on the sample timer running at speed factor 2, with
  half a second left on the clock, returns that half second as the clock reports it. The
  value at speed factor 1 is one second: it is what \<^verbatim>\<open>stop\<close> stores and what
  \<^verbatim>\<open>to_fstream\<close> writes for the same timer and clock, both of which multiply the
  remaining value by the speed factor.
\<close>

theorem get_timer_value_running_returns_live_value:
  "\<not> running test_timer \<and>
   get_timer_value test_timer live_kernel = (Inr \<lparr>tv_sec = 1, tv_usec = 0\<rparr>, live_kernel) \<and>
   running fast_timer \<and> speed_factor fast_timer = Finite 2 \<and>
   get_timer_value fast_timer live_kernel =
     (Inr \<lparr>tv_sec = 0, tv_usec = 500000\<rparr>, live_kernel) \<and>
   timeval_times \<lparr>tv_sec = 0, tv_usec = 500000\<rparr> (speed_factor fast_timer) =
     \<lparr>tv_sec = 1, tv_usec = 0\<rparr> \<and>
   timer_value (fst (snd (stop fast_timer live_kernel))) = \<lparr>tv_sec = 1, tv_usec = 0\<rparr> \<and>
   map it_value (fst (snd (to_fstream fast_timer [] live_kernel))) =
     [\<lparr>tv_sec = 1, tv_usec = 0\<rparr>]"
  by (simp add: get_timer_value_def stop_def to_fstream_def getitimer_def setitimer_def
      sample_simps computed)

text \<open>
  Claim C6, as stated, fails for a running timer: the record written is not the live setting
  of the clock. The sample timer runs at speed factor 2 on a clock programmed with an
  interval of one second and half a second left; the record holds an interval of two seconds
  and a value of one second.
\<close>

theorem to_fstream_running_counterexample:
  "running fast_timer \<and>
   itimers live_kernel (type fast_timer) =
     \<lparr>it_interval = \<lparr>tv_sec = 1, tv_usec = 0\<rparr>, it_value = \<lparr>tv_sec = 0, tv_usec = 500000\<rparr>\<rparr> \<and>
   to_fstream fast_timer [] live_kernel =
     (Inr (),
      [\<lparr>it_interval = \<lparr>tv_sec = 2, tv_usec = 0\<rparr>, it_value = \<lparr>tv_sec = 1, tv_usec = 0\<rparr>\<rparr>],
      live_kernel) \<and>
   fst (snd (to_fstream fast_timer [] live_kernel)) \<noteq> [itimers live_kernel (type fast_timer)]"
  by (simp add: to_fstream_def getitimer_def sample_simps computed)

text \<open>
  Claim C6, amended. \<^verbatim>\<open>to_fstream\<close> appends exactly one \<^verbatim>\<open>itimerval\<close>
  record, two pairs of seconds and microseconds, with no field for the clock kind or the
  speed factor. The record holds the interval and value at speed factor 1. Its interval is
  always the stored \<open>timer_interval\<close>. Its value is the stored \<open>timer_value\<close> when the
  timer is stopped, and the remaining value read from the clock multiplied by the speed
  factor when the timer is running. For a stopped timer the record does not depend on the
  clock kind or the speed factor. When the read of the clock fails, nothing is written and
  \<^verbatim>\<open>std::system_error\<close> is thrown.
\<close>

theorem to_fstream_writes_normalized_record:
  "(\<not> running t \<longrightarrow>
      to_fstream t fs k =
        (Inr (), fs @ [\<lparr>it_interval = timer_interval t, it_value = timer_value t\<rparr>], k) \<and>
      to_fstream (t\<lparr>type := ty, speed_factor := sf\<rparr>) fs k = to_fstream t fs k) \<and>
   (running t \<and> next_fault k = None \<longrightarrow>
      to_fstream t fs k =
        (Inr (),
         fs @ [\<lparr>it_interval = timer_interval t,
                it_value = timeval_times (it_value (itimers k (type t))) (speed_factor t)\<rparr>],
         k\<lparr>faults := tl (faults k)\<rparr>)) \<and>
   (running t \<and> next_fault k = Some e \<longrightarrow>
      to_fstream t fs k =
        (Inl (system_error e ''call of getitimer failed''), fs,
         k\<lparr>faults := tl (faults k), errno := e\<rparr>))"
  by (simp add: to_fstream_def Let_def getitimer_fails getitimer_succeeds itimerval_overwrite)

theorem to_fstream_writes_normalized_record_witness:
  "\<not> running test_timer \<and>
   to_fstream test_timer [] live_kernel =
     (Inr (),
      [\<lparr>it_interval = \<lparr>tv_sec = 2, tv_usec = 0\<rparr>, it_value = \<lparr>tv_sec = 1, tv_usec = 0\<rparr>\<rparr>],
      live_kernel) \<and>
   to_fstream (test_timer\<lparr>type := ITIMER_PROF, speed_factor := Finite 4\<rparr>) [] live_kernel =
     to_fstream test_timer [] live_kernel \<and>
   running fast_timer \<and>
   to_fstream fast_timer [] live_kernel =
     (Inr (),
      [\<lparr>it_interval = \<lparr>tv_sec = 2, tv_usec = 0\<rparr>, it_value = \<lparr>tv_sec = 1, tv_usec = 0\<rparr>\<rparr>],
      live_kernel) \<and>
   to_fstream (test_timer\<lparr>running := True\<rparr>) [STOP_TIMER] nearly_expired_kernel =
     (Inr (),
      [STOP_TIMER,
       \<lparr>it_interval = \<lparr>tv_sec = 2, tv_usec = 0\<rparr>, it_value = \<lparr>tv_sec = 0, tv_usec = 248\<rparr>\<rparr>],
      nearly_expired_kernel) \<and>
   to_fstream fast_timer [] faulty_kernel =
     (Inl (system_error EINVAL ''call of getitimer failed''), [],
      live_kernel\<lparr>errno := EINVAL\<rparr>)"
  using
    to_fstream_writes_normalized_record
      [where t = test_timer and fs = "[]" and k = live_kernel and ty = ITIMER_PROF
         and sf = "Finite 4" and e = 0]
    to_fstream_writes_normalized_record
      [where t = fast_timer and fs = "[]" and k = live_kernel and ty = ITIMER_PROF
         and sf = "Finite 4" and e = 0]
    to_fstream_writes_normalized_record
      [where t = "test_timer\<lparr>running := True\<rparr>" and fs = "[STOP_TIMER]"
         and k = nearly_expired_kernel and ty = ITIMER_PROF and sf = "Finite 4" and e = 0]
    to_fstream_writes_normalized_record
      [where t = fast_timer and fs = "[]" and k = faulty_kernel and ty = ITIMER_PROF
         and sf = "Finite 4" and e = EINVAL]
  by (simp add: sample_simps computed)



text \<open>
  Claim C10. The four constructors of \<^verbatim>\<open>ITimer\<close> cannot fail: each yields a
  stopped timer at speed factor 1 that holds the interval and value it was given, converted
  from \<^verbatim>\<open>double\<close> where they are given in seconds, and none looks at the sign or at
  zero. Both overloads of \<^verbatim>\<open>set_interval_value\<close> on a stopped timer do the same.
  \<^verbatim>\<open>start\<close> is where such values are rejected: a stopped timer whose scaled
  interval or scaled value has negative seconds, or whose scaled interval is zero in both
  fields, is refused with \<^verbatim>\<open>std::runtime_error\<close> and left unchanged. The two
  negativity tests read the seconds field only: when the scaled interval has zero seconds and
  negative microseconds, and the seconds of the scaled value are not negative, no guard of
  \<^verbatim>\<open>start\<close> fires, the pair is passed to \<^verbatim>\<open>setitimer\<close>, and the outcome
  of \<^verbatim>\<open>start\<close> is the outcome of that call.
\<close>

theorem validation_only_in_start:
  fixes t :: ITimer and k :: kernel
  defines "scaled_interval \<equiv> timeval_divide (timer_interval t) (speed_factor t)"
    and "scaled_value \<equiv> timeval_divide (timer_value t) (speed_factor t)"
  shows
  "timer_interval (ITimer_ctor ty args) =
     (case args of
        Interval i \<Rightarrow> i
      | Interval_Value i v \<Rightarrow> i
      | Seconds x \<Rightarrow> double_to_timeval x
      | Seconds_Value x y \<Rightarrow> double_to_timeval x) \<and>
   timer_value (ITimer_ctor ty args) =
     (case args of
        Interval i \<Rightarrow> i
      | Interval_Value i v \<Rightarrow> v
      | Seconds x \<Rightarrow> double_to_timeval x
      | Seconds_Value x y \<Rightarrow> double_to_timeval y) \<and>
   type (ITimer_ctor ty args) = ty \<and>
   speed_factor (ITimer_ctor ty args) = Finite 1 \<and>
   \<not> running (ITimer_ctor ty args) \<and>
   (\<not> running t \<longrightarrow>
      set_interval_value t interval val =
        (Inr (), t\<lparr>timer_interval := interval, timer_value := val\<rparr>) \<and>
      set_interval_value_seconds t x y =
        (Inr (), t\<lparr>timer_interval := double_to_timeval x,
                    timer_value := double_to_timeval y\<rparr>)) \<and>
   (\<not> running t \<and>
    (tv_sec scaled_interval < 0 \<or> tv_sec scaled_value < 0 \<or>
     (tv_sec scaled_interval = 0 \<and> tv_usec scaled_interval = 0)) \<longrightarrow>
      fst (start t k) \<in>
        {Inl (runtime_error ''timer interval is negative''),
         Inl (runtime_error ''timer value is negative''),
         Inl (runtime_error ''invalid timer values due to to a to small speed factor'')} \<and>
      snd (start t k) = (t, k)) \<and>
   (\<not> running t \<and> tv_sec scaled_interval = 0 \<and> tv_usec scaled_interval < 0 \<and>
    0 \<le> tv_sec scaled_value \<longrightarrow>
      (next_fault k = None \<longrightarrow>
         start t k =
           (Inr (), t\<lparr>running := True\<rparr>,
            k\<lparr>itimers := (itimers k)
                (type t := \<lparr>it_interval = scaled_interval, it_value = scaled_value\<rparr>),
              faults := tl (faults k)\<rparr>)) \<and>
      (next_fault k = Some e \<longrightarrow>
         fst (start t k) = Inl (system_error e ''call of setitimer failed'')))"
proof -
  have ctor: "timer_interval (ITimer_ctor ty args) =
     (case args of
        Interval i \<Rightarrow> i
      | Interval_Value i v \<Rightarrow> i
      | Seconds x \<Rightarrow> double_to_timeval x
      | Seconds_Value x y \<Rightarrow> double_to_timeval x) \<and>
   timer_value (ITimer_ctor ty args) =
     (case args of
        Interval i \<Rightarrow> i
      | Interval_Value i v \<Rightarrow> v
      | Seconds x \<Rightarrow> double_to_timeval x
      | Seconds_Value x y \<Rightarrow> double_to_timeval y) \<and>
   type (ITimer_ctor ty args) = ty \<and>
   speed_factor (ITimer_ctor ty args) = Finite 1 \<and>
   \<not> running (ITimer_ctor ty args)"
    by (cases args) simp_all
  have store: "\<not> running t \<longrightarrow>
      set_interval_value t interval val =
        (Inr (), t\<lparr>timer_interval := interval, timer_value := val\<rparr>) \<and>
      set_interval_value_seconds t x y =
        (Inr (), t\<lparr>timer_interval := double_to_timeval x,
                    timer_value := double_to_timeval y\<rparr>)"
    by (simp add: set_interval_value_def set_interval_value_seconds_def)
  have rejects: "\<not> running t \<and>
    (tv_sec scaled_interval < 0 \<or> tv_sec scaled_value < 0 \<or>
     (tv_sec scaled_interval = 0 \<and> tv_usec scaled_interval = 0)) \<longrightarrow>
      fst (start t k) \<in>
        {Inl (runtime_error ''timer interval is negative''),
         Inl (runtime_error ''timer value is negative''),
         Inl (runtime_error ''invalid timer values due to to a to small speed factor'')} \<and>
      snd (start t k) = (t, k)"
    by (auto simp add: start_def Let_def scaled_interval_def scaled_value_def)
  have passes: "\<not> running t \<and> tv_sec scaled_interval = 0 \<and> tv_usec scaled_interval < 0 \<and>
    0 \<le> tv_sec scaled_value \<longrightarrow>
      (next_fault k = None \<longrightarrow>
         start t k =
           (Inr (), t\<lparr>running := True\<rparr>,
            k\<lparr>itimers := (itimers k)
                (type t := \<lparr>it_interval = scaled_interval, it_value = scaled_value\<rparr>),
              faults := tl (faults k)\<rparr>)) \<and>
      (next_fault k = Some e \<longrightarrow>
         fst (start t k) = Inl (system_error e ''call of setitimer failed''))"
    by (auto simp add: start_def Let_def scaled_interval_def scaled_value_def
        setitimer_fails setitimer_succeeds)
  from ctor store rejects passes show ?thesis by blast
qed

theorem validation_only_in_start_witness:
  "ITimer_ctor ITIMER_REAL (Interval \<lparr>tv_sec = 0, tv_usec = 0\<rparr>) =
     \<lparr>timer_value = \<lparr>tv_sec = 0, tv_usec = 0\<rparr>, timer_interval = \<lparr>tv_sec = 0, tv_usec = 0\<rparr>,
      type = ITIMER_REAL, speed_factor = Finite 1, running = False\<rparr> \<and>
   ITimer_ctor ITIMER_REAL
       (Interval_Value \<lparr>tv_sec = 0, tv_usec = 0\<rparr> \<lparr>tv_sec = - 3, tv_usec = - 7\<rparr>) =
     \<lparr>timer_value = \<lparr>tv_sec = - 3, tv_usec = - 7\<rparr>, timer_interval = \<lparr>tv_sec = 0, tv_usec = 0\<rparr>,
      type = ITIMER_REAL, speed_factor = Finite 1, running = False\<rparr> \<and>
   ITimer_ctor ITIMER_VIRTUAL (Seconds (Finite (- (1 / 2)))) =
     \<lparr>timer_value = \<lparr>tv_sec = 0, tv_usec = - 500000\<rparr>,
      timer_interval = \<lparr>tv_sec = 0, tv_usec = - 500000\<rparr>,
      type = ITIMER_VIRTUAL, speed_factor = Finite 1, running = False\<rparr> \<and>
   ITimer_ctor ITIMER_PROF (Seconds_Value (Finite (10 ^ 19)) literal_2_3) =
     \<lparr>timer_value = \<lparr>tv_sec = 2, tv_usec = 299999\<rparr>,
      timer_interval = \<lparr>tv_sec = - (2 ^ 63), tv_usec = 0\<rparr>,
      type = ITIMER_PROF, speed_factor = Finite 1, running = False\<rparr> \<and>
   \<not> running test_timer \<and>
   set_interval_value test_timer \<lparr>tv_sec = 0, tv_usec = 0\<rparr> \<lparr>tv_sec = - 3, tv_usec = - 7\<rparr> =
     (Inr (), test_timer\<lparr>timer_interval := \<lparr>tv_sec = 0, tv_usec = 0\<rparr>,
                         timer_value := \<lparr>tv_sec = - 3, tv_usec = - 7\<rparr>\<rparr>) \<and>
   set_interval_value_seconds test_timer (Finite (- (1 / 2))) literal_0_3 =
     (Inr (), test_timer\<lparr>timer_interval := \<lparr>tv_sec = 0, tv_usec = - 500000\<rparr>,
                         timer_value := \<lparr>tv_sec = 0, tv_usec = 300000\<rparr>\<rparr>) \<and>
   start (test_timer\<lparr>timer_interval := \<lparr>tv_sec = - 1, tv_usec = 0\<rparr>\<rparr>) idle_kernel =
     (Inl (runtime_error ''timer interval is negative''),
      test_timer\<lparr>timer_interval := \<lparr>tv_sec = - 1, tv_usec = 0\<rparr>\<rparr>, idle_kernel) \<and>
   start (test_timer\<lparr>timer_value := \<lparr>tv_sec = - 1, tv_usec = 0\<rparr>\<rparr>) idle_kernel =
     (Inl (runtime_error ''timer value is negative''),
      test_timer\<lparr>timer_value := \<lparr>tv_sec = - 1, tv_usec = 0\<rparr>\<rparr>, idle_kernel) \<and>
   start (test_timer\<lparr>timer_interval := \<lparr>tv_sec = 0, tv_usec = 0\<rparr>\<rparr>) idle_kernel =
     (Inl (runtime_error ''invalid timer values due to to a to small speed factor''),
      test_timer\<lparr>timer_interval := \<lparr>tv_sec = 0, tv_usec = 0\<rparr>\<rparr>, idle_kernel) \<and>
   start (test_timer\<lparr>timer_interval := \<lparr>tv_sec = 0, tv_usec = - 249\<rparr>\<rparr>) idle_kernel =
     (Inr (), test_timer\<lparr>timer_interval := \<lparr>tv_sec = 0, tv_usec = - 249\<rparr>, running := True\<rparr>,
      idle_kernel\<lparr>itimers := (\<lambda>_. STOP_TIMER)
        (ITIMER_REAL := \<lparr>it_interval = \<lparr>tv_sec = 0, tv_usec = - 248\<rparr>,
                         it_value = \<lparr>tv_sec = 1, tv_usec = 0\<rparr>\<rparr>)\<rparr>) \<and>
   start half_negative_timer idle_kernel =
     (Inr (), half_negative_timer\<lparr>running := True\<rparr>,
      idle_kernel\<lparr>itimers := (\<lambda>_. STOP_TIMER)
        (ITIMER_REAL := \<lparr>it_interval = \<lparr>tv_sec = 0, tv_usec = - 500000\<rparr>,
                         it_value = \<lparr>tv_sec = 0, tv_usec = - 500000\<rparr>\<rparr>)\<rparr>) \<and>
   fst (start half_negative_timer faulty_kernel) =
     Inl (system_error EINVAL ''call of setitimer failed'')"
  using
    validation_only_in_start
      [where ty = ITIMER_REAL and args = "Interval \<lparr>tv_sec = 0, tv_usec = 0\<rparr>"
         and t = test_timer and interval = "\<lparr>tv_sec = 0, tv_usec = 0\<rparr>"
         and val = "\<lparr>tv_sec = - 3, tv_usec = - 7\<rparr>" and x = "Finite (- (1 / 2))"
         and y = literal_0_3 and k = idle_kernel and e = 0]
    validation_only_in_start
      [where ty = ITIMER_REAL
         and args = "Interval_Value \<lparr>tv_sec = 0, tv_usec = 0\<rparr> \<lparr>tv_sec = - 3, tv_usec = - 7\<rparr>"
         and t = "test_timer\<lparr>timer_interval := \<lparr>tv_sec = - 1, tv_usec = 0\<rparr>\<rparr>"
         and interval = "\<lparr>tv_sec = 0, tv_usec = 0\<rparr>"
         and val = "\<lparr>tv_sec = - 3, tv_usec = - 7\<rparr>" and x = "Finite (- (1 / 2))"
         and y = literal_0_3 and k = idle_kernel and e = 0]
    validation_only_in_start
      [where ty = ITIMER_VIRTUAL and args = "Seconds (Finite (- (1 / 2)))"
         and t = "test_timer\<lparr>timer_value := \<lparr>tv_sec = - 1, tv_usec = 0\<rparr>\<rparr>"
         and interval = "\<lparr>tv_sec = 0, tv_usec = 0\<rparr>"
         and val = "\<lparr>tv_sec = - 3, tv_usec = - 7\<rparr>" and x = "Finite (- (1 / 2))"
         and y = literal_0_3 and k = idle_kernel and e = 0]
    validation_only_in_start
      [where ty = ITIMER_PROF and args = "Seconds_Value (Finite (10 ^ 19)) literal_2_3"
         and t = "test_timer\<lparr>timer_interval := \<lparr>tv_sec = 0, tv_usec = 0\<rparr>\<rparr>"
         and interval = "\<lparr>tv_sec = 0, tv_usec = 0\<rparr>"
         and val = "\<lparr>tv_sec = - 3, tv_usec = - 7\<rparr>" and x = "Finite (- (1 / 2))"
         and y = literal_0_3 and k = idle_kernel and e = 0]
    validation_only_in_start
      [where ty = ITIMER_REAL and args = "Interval \<lparr>tv_sec = 0, tv_usec = 0\<rparr>"
         and t = "test_timer\<lparr>timer_interval := \<lparr>tv_sec = 0, tv_usec = - 249\<rparr>\<rparr>"
         and interval = "\<lparr>tv_sec = 0, tv_usec = 0\<rparr>"
         and val = "\<lparr>tv_sec = - 3, tv_usec = - 7\<rparr>" and x = "Finite (- (1 / 2))"
         and y = literal_0_3 and k = idle_kernel and e = 0]
    validation_only_in_start
      [where ty = ITIMER_REAL and args = "Interval \<lparr>tv_sec = 0, tv_usec = 0\<rparr>"
         and t = half_negative_timer and interval = "\<lparr>tv_sec = 0, tv_usec = 0\<rparr>"
         and val = "\<lparr>tv_sec = - 3, tv_usec = - 7\<rparr>" and x = "Finite (- (1 / 2))"
         and y = literal_0_3 and k = idle_kernel and e = 0]
    validation_only_in_start
      [where ty = ITIMER_REAL and args = "Interval \<lparr>tv_sec = 0, tv_usec = 0\<rparr>"
         and t = half_negative_timer and interval = "\<lparr>tv_sec = 0, tv_usec = 0\<rparr>"
         and val = "\<lparr>tv_sec = - 3, tv_usec = - 7\<rparr>" and x = "Finite (- (1 / 2))"
         and y = literal_0_3 and k = faulty_kernel and e = EINVAL]
  by (simp add: start_def Let_def sample_simps computed fun_eq_iff)

section \<open>One instance per clock kind\<close>

lemma type_ITimer_ctor: "type (ITimer_ctor which args) = which"
  by (cases args) simp_all

lemma construct_exists:
  "instance_exists which s \<Longrightarrow> construct which args s = (Inl (logic_error ''instance exists''), s)"
  by (cases which)
    (simp_all add: ITimer_Real_ctor_def ITimer_Virtual_ctor_def ITimer_Prof_ctor_def)

lemma construct_fresh:
  "\<not> instance_exists which s \<Longrightarrow> fst (construct which args s) = Inr (ITimer_ctor which args)"
  by (cases which)
    (simp_all add: ITimer_Real_ctor_def ITimer_Virtual_ctor_def ITimer_Prof_ctor_def)

lemma construct_fresh_flags:
  "\<not> instance_exists which s \<Longrightarrow>
   instance_exists w (snd (construct which args s)) = (w = which \<or> instance_exists w s)"
  by (cases which; cases w)
    (simp_all add: ITimer_Real_ctor_def ITimer_Virtual_ctor_def ITimer_Prof_ctor_def)

lemma destroy_flags:
  "instance_exists w (fst (snd (destroy t s k))) = (w \<noteq> type t \<and> instance_exists w s)"
  by (cases "type t"; cases w)
    (simp_all add: destroy_def ITimer_Real_dtor_def ITimer_Virtual_dtor_def
      ITimer_Prof_dtor_def Let_def split: prod.splits)

lemma type_start: "type (fst (snd (start t k))) = type t"
  by (simp add: start_def Let_def split: prod.splits)

lemma type_stop: "type (fst (snd (stop t k))) = type t"
  by (simp add: stop_def split: prod.splits)

lemma type_adjust_speed: "type (fst (snd (adjust_speed t f k))) = type t"
  by (simp add: adjust_speed_def Let_def split: prod.splits)

lemma type_set_speed_factor: "type (fst (snd (set_speed_factor t f k))) = type t"
  by (simp add: set_speed_factor_def type_adjust_speed)

lemma type_set_speed_to_normal: "type (fst (snd (set_speed_to_normal t k))) = type t"
  by (simp add: set_speed_to_normal_def type_adjust_speed)

lemma type_call: "type (fst (call m t k)) = type t"
  by (cases m)
    (simp_all add: type_start type_stop type_set_speed_factor type_set_speed_to_normal
      set_interval_value_def from_fstream_def Let_def)

lemma filter_remove_nth:
  "i < length xs \<Longrightarrow>
   length (filter P (take i xs @ drop (Suc i) xs)) =
     length (filter P xs) - (if P (xs ! i) then 1 else 0)"
proof -
  assume "i < length xs"
  then have "xs = take i xs @ xs ! i # drop (Suc i) xs"
    by (rule id_take_nth_drop)
  then have "length (filter P xs) =
      length (filter P (take i xs @ xs ! i # drop (Suc i) xs))"
    by simp
  then show ?thesis by simp
qed

lemma filter_update_same_type:
  "i < length xs \<Longrightarrow> type t = type (xs ! i) \<Longrightarrow>
   length (filter (\<lambda>x. type x = w) (xs[i := t])) = length (filter (\<lambda>x. type x = w) xs)"
proof -
  assume i: "i < length xs" and t: "type t = type (xs ! i)"
  have "map type (xs[i := t]) = map type xs"
    using i t by (simp add: map_update list_update_same_conv)
  then have "length (filter (\<lambda>y. y = w) (map type (xs[i := t]))) =
      length (filter (\<lambda>y. y = w) (map type xs))"
    by simp
  then show ?thesis by (simp add: filter_map comp_def)
qed

lemma filter_nth_positive:
  "i < length xs \<Longrightarrow> P (xs ! i) \<Longrightarrow> 0 < length (filter P xs)"
  by (metis filter_empty_conv length_greater_0_conv nth_mem)

lemma registry_consistent_step:
  assumes "registry_consistent p"
  shows "registry_consistent (step p e)"
proof (cases e)
  case (New which args)
  show ?thesis
  proof (cases "instance_exists which (flags p)")
    case True
    then show ?thesis
      using assms New by (simp add: construct_exists registry_consistent_def live_instances_def)
  next
    case False
    obtain s where c: "construct which args (flags p) = (Inr (ITimer_ctor which args), s)"
      using construct_fresh [OF False, of args] by (cases "construct which args (flags p)") simp
    have s: "\<And>w. instance_exists w s = (w = which \<or> instance_exists w (flags p))"
      using construct_fresh_flags [OF False, of _ args] c by simp
    have none: "live_instances which p = 0"
    proof -
      have "live_instances which p \<le> 1" and "live_instances which p \<noteq> 1"
        using assms False by (simp_all add: registry_consistent_def)
      then show ?thesis by arith
    qed
    show ?thesis
      unfolding registry_consistent_def
    proof
      fix w
      show "live_instances w (step p e) \<le> 1 \<and>
        (instance_exists w (flags (step p e)) \<longleftrightarrow> live_instances w (step p e) = 1)"
        using assms none New c s [of w]
        by (cases "w = which")
          (auto simp add: registry_consistent_def live_instances_def type_ITimer_ctor)
    qed
  qed
next
  case (Call i m)
  show ?thesis
  proof (cases "i < length (objects p)")
    case True
    obtain t k where c: "call m (objects p ! i) (kern p) = (t, k)"
      by (cases "call m (objects p ! i) (kern p)")
    have "type t = type (objects p ! i)"
      using type_call [of m "objects p ! i" "kern p"] c by simp
    then show ?thesis
      using assms Call True c
      by (simp add: registry_consistent_def live_instances_def filter_update_same_type)
  next
    case False
    then show ?thesis using assms Call by simp
  qed
next
  case (Delete i)
  show ?thesis
  proof (cases "i < length (objects p)")
    case True
    obtain status s k where d: "destroy (objects p ! i) (flags p) (kern p) = (status, s, k)"
      by (cases "destroy (objects p ! i) (flags p) (kern p)")
    have s: "\<And>w. instance_exists w s = (w \<noteq> type (objects p ! i) \<and> instance_exists w (flags p))"
      using destroy_flags [of _ "objects p ! i" "flags p" "kern p"] d by simp
    have one: "live_instances (type (objects p ! i)) p = 1"
    proof -
      have "0 < live_instances (type (objects p ! i)) p"
        unfolding live_instances_def using True by (rule filter_nth_positive) simp
      moreover have "live_instances (type (objects p ! i)) p \<le> 1"
        using assms by (simp add: registry_consistent_def)
      ultimately show ?thesis by simp
    qed
    show ?thesis
      unfolding registry_consistent_def
    proof
      fix w
      have c: "live_instances w p \<le> 1 \<and>
          (instance_exists w (flags p) \<longleftrightarrow> live_instances w p = 1)"
        using assms by (simp add: registry_consistent_def)
      have o: "objects (step p e) = take i (objects p) @ drop (Suc i) (objects p)"
        using Delete True d by simp
      have l: "live_instances w (step p e) =
          live_instances w p - (if type (objects p ! i) = w then 1 else 0)"
        unfolding live_instances_def o using True by (rule filter_remove_nth)
      show "live_instances w (step p e) \<le> 1 \<and>
        (instance_exists w (flags (step p e)) \<longleftrightarrow> live_instances w (step p e) = 1)"
      proof (cases "w = type (objects p ! i)")
        case True
        then show ?thesis using l one s [of w] Delete \<open>i < length (objects p)\<close> d by simp
      next
        case False
        then have "live_instances w (step p e) = live_instances w p" using l by auto
        then show ?thesis using False c s [of w] Delete True d by simp
      qed
    qed
  next
    case False
    then show ?thesis using assms Delete by simp
  qed
qed

lemma registry_consistent_run:
  "registry_consistent p \<Longrightarrow> registry_consistent (run p events)"
proof (induction events arbitrary: p)
  case Nil
  then show ?case by simp
next
  case (Cons e es)
  then show ?case
    by (cases "exit_status p") (simp_all add: registry_consistent_step)
qed

lemma registry_consistent_initial: "registry_consistent (initial_process k)"
proof -
  have "\<And>w. \<not> instance_exists w initial_statics"
    subgoal for w by (cases w) (simp_all add: initial_statics_def)
    done
  then show ?thesis
    by (simp add: registry_consistent_def initial_process_def live_instances_def)
qed

text \<open>
  Claim C5. Every constructor of a class throws \<^verbatim>\<open>std::logic_error\<close>
  "instance exists" (the spec's AlreadyExists) while the flag of its class is set, and leaves
  the flags alone; otherwise it yields the object built by the base constructor and sets the
  flag of its class, and no other flag. So objects of two different classes can be alive
  together. The destructor clears the flag of the object's class and no other flag, whether
  or not the timer runs and whatever happens in the base destructor, so a constructor of the
  class succeeds afterwards. In a process that starts with no timer and constructs objects,
  calls their member functions and destroys them in any order, at most one object of each
  class is alive at any time, and the flag of a class is set exactly when one is.
\<close>

theorem one_instance_per_kind:
  "(instance_exists which s \<longrightarrow>
      construct which args s = (Inl (logic_error ''instance exists''), s)) \<and>
   (\<not> instance_exists which s \<longrightarrow>
      fst (construct which args s) = Inr (ITimer_ctor which args) \<and>
      type (ITimer_ctor which args) = which \<and>
      instance_exists w (snd (construct which args s)) = (w = which \<or> instance_exists w s)) \<and>
   (\<not> instance_exists which s \<and> \<not> instance_exists other s \<and> other \<noteq> which \<longrightarrow>
      fst (construct other args' (snd (construct which args s))) =
        Inr (ITimer_ctor other args')) \<and>
   instance_exists w (fst (snd (destroy t s k))) = (w \<noteq> type t \<and> instance_exists w s) \<and>
   fst (construct (type t) args (fst (snd (destroy t s k)))) =
     Inr (ITimer_ctor (type t) args) \<and>
   live_instances w (run (initial_process k) events) \<le> 1 \<and>
   (instance_exists w (flags (run (initial_process k) events)) \<longleftrightarrow>
      live_instances w (run (initial_process k) events) = 1)"
proof -
  have two: "\<not> instance_exists which s \<and> \<not> instance_exists other s \<and> other \<noteq> which \<longrightarrow>
      fst (construct other args' (snd (construct which args s))) =
        Inr (ITimer_ctor other args')"
    by (simp add: construct_fresh construct_fresh_flags)
  have again: "fst (construct (type t) args (fst (snd (destroy t s k)))) =
      Inr (ITimer_ctor (type t) args)"
    by (simp add: construct_fresh destroy_flags)
  have "registry_consistent (run (initial_process k) events)"
    by (simp add: registry_consistent_run registry_consistent_initial)
  then have inv: "live_instances w (run (initial_process k) events) \<le> 1 \<and>
      (instance_exists w (flags (run (initial_process k) events)) \<longleftrightarrow>
         live_instances w (run (initial_process k) events) = 1)"
    by (simp add: registry_consistent_def)
  from two again inv show ?thesis
    by (simp add: construct_exists construct_fresh construct_fresh_flags destroy_flags
        type_ITimer_ctor)
qed

theorem one_instance_per_kind_witness:
  "construct ITIMER_REAL (Seconds (Finite 3))
       (initial_statics\<lparr>ITimer_Real_instance_exists := True\<rparr>) =
     (Inl (logic_error ''instance exists''),
      initial_statics\<lparr>ITimer_Real_instance_exists := True\<rparr>) \<and>
   construct ITIMER_REAL (Seconds (Finite 3)) initial_statics =
     (Inr (ITimer_ctor ITIMER_REAL (Seconds (Finite 3))),
      initial_statics\<lparr>ITimer_Real_instance_exists := True\<rparr>) \<and>
   construct ITIMER_PROF (Seconds (Finite 3))
       (initial_statics\<lparr>ITimer_Real_instance_exists := True\<rparr>) =
     (Inr (ITimer_ctor ITIMER_PROF (Seconds (Finite 3))),
      initial_statics\<lparr>ITimer_Real_instance_exists := True,
                      ITimer_Prof_instance_exists := True\<rparr>) \<and>
   destroy fast_timer (initial_statics\<lparr>ITimer_Real_instance_exists := True\<rparr>) faulty_kernel =
     (Some EX_SOFTWARE, initial_statics, live_kernel\<lparr>errno := EINVAL\<rparr>) \<and>
   map type (objects (run (initial_process idle_kernel) sample_events)) =
     [ITIMER_VIRTUAL, ITIMER_REAL] \<and>
   flags (run (initial_process idle_kernel) sample_events) =
     \<lparr>ITimer_Real_instance_exists = True, ITimer_Virtual_instance_exists = True,
      ITimer_Prof_instance_exists = False\<rparr> \<and>
   live_instances ITIMER_REAL (run (initial_process idle_kernel) sample_events) = 1"
  using
    one_instance_per_kind
      [where which = ITIMER_REAL and s = "initial_statics\<lparr>ITimer_Real_instance_exists := True\<rparr>"
         and args = "Seconds (Finite 3)" and w = ITIMER_REAL and other = ITIMER_PROF
         and args' = "Seconds (Finite 3)" and t = fast_timer and k = faulty_kernel
         and events = sample_events]
    one_instance_per_kind
      [where which = ITIMER_REAL and s = initial_statics
         and args = "Seconds (Finite 3)" and w = ITIMER_REAL and other = ITIMER_PROF
         and args' = "Seconds (Finite 3)" and t = fast_timer and k = idle_kernel
         and events = sample_events]
  by (simp add: sample_events_def initial_process_def initial_statics_def
      ITimer_Real_ctor_def ITimer_Virtual_ctor_def ITimer_Prof_ctor_def
      destroy_def ITimer_Real_dtor_def ITimer_Virtual_dtor_def ITimer_Prof_dtor_def
      ITimer_dtor_def stop_def start_def setitimer_def Let_def live_instances_def
      sample_simps computed)

end
